theory Spec2Isabelle
  imports Complex_Main
begin

section \<open>Values of the JavaScript runtime\<close>

text \<open>
  The gateway is TypeScript running on a JavaScript engine. A string of the engine is
  a sequence of 16-bit code units; it is modelled as the list of these units, each a
  natural number. \<open>js\<close> turns a literal of ASCII characters into the string of their
  codes, so \<open>js ''id''\<close> is the JavaScript literal \<open>'id'\<close>.
\<close>

type_synonym code_unit = nat

type_synonym jstring = "code_unit list"

definition unit_of :: "char \<Rightarrow> code_unit" where
  "unit_of ch = of_char ch"

definition js :: "string \<Rightarrow> jstring" where
  "js s = map unit_of s"

declare js_def [simp] unit_of_def [simp]

text \<open>
  A number of the engine is a double: a finite value (carried as the real number it
  denotes), negative zero, an infinity or \<open>NaN\<close>. The program never computes with
  numbers; it passes on what the engine made of a JSON body or of \<open>parseInt\<close>.
\<close>

datatype number = Finite real | NegZero | PosInfinity | NegInfinity | NaN

text \<open>
  \<open>Builtin n\<close> stands for the member named \<open>n\<close> that every plain object inherits from
  \<open>Object.prototype\<close>. An object is the list of its own enumerable properties in the
  order in which \<open>Object.keys\<close> enumerates them; a parsed JSON object has each key once.
\<close>

datatype jsval =
    Undefined
  | Null
  | Bool bool
  | Num number
  | Str jstring
  | Arr "jsval list"
  | Obj "(jstring \<times> jsval) list"
  | Builtin jstring

text \<open>
  The builtins of the engine that look inside the units of a string are parameters of
  the model: \<open>parseInt\<close> of a string with no radix (with the white space it skips, the
  prefixes it reads and its rounding to a double) and \<open>String.prototype.toUpperCase\<close>
  (with the case mapping of Unicode). What is proved holds for every engine.
\<close>

record engine =
  parseInt :: "jstring \<Rightarrow> number"
  toUpperCase :: "jstring \<Rightarrow> jstring"

text \<open>Truthiness, as \<open>!x\<close>, \<open>if (x)\<close> and \<open>x || y\<close> test it.\<close>

fun truthy :: "jsval \<Rightarrow> bool" where
  "truthy Undefined = False"
| "truthy Null = False"
| "truthy (Bool b) = b"
| "truthy (Num x) = (x \<noteq> Finite 0 \<and> x \<noteq> NegZero \<and> x \<noteq> NaN)"
| "truthy (Str s) = (s \<noteq> [])"
| "truthy (Arr xs) = True"
| "truthy (Obj kvs) = True"
| "truthy (Builtin n) = True"

text \<open>An optional string (\<open>string | undefined\<close>, \<open>string | null\<close>) under \<open>if (x)\<close>.\<close>

fun truthy_str :: "jstring option \<Rightarrow> bool" where
  "truthy_str None = False"
| "truthy_str (Some s) = (s \<noteq> [])"

fun js_typeof :: "jsval \<Rightarrow> jstring" where
  "js_typeof Undefined = js ''undefined''"
| "js_typeof Null = js ''object''"
| "js_typeof (Bool b) = js ''boolean''"
| "js_typeof (Num x) = js ''number''"
| "js_typeof (Str s) = js ''string''"
| "js_typeof (Arr xs) = js ''object''"
| "js_typeof (Obj kvs) = js ''object''"
| "js_typeof (Builtin n) = js ''function''"

fun isArray :: "jsval \<Rightarrow> bool" where
  "isArray (Arr xs) = True"
| "isArray v = False"

text \<open>The names that \<open>Object.prototype\<close> defines, visible through every plain object.\<close>

definition object_prototype_names :: "jstring list" where
  "object_prototype_names =
     [js ''constructor'', js ''__defineGetter__'', js ''__defineSetter__'',
      js ''hasOwnProperty'', js ''__lookupGetter__'', js ''__lookupSetter__'',
      js ''isPrototypeOf'', js ''propertyIsEnumerable'', js ''toString'', js ''valueOf'',
      js ''__proto__'', js ''toLocaleString'']"

text \<open>
  \<open>data[col]\<close>: the own property when there is one, else the inherited member, else
  \<open>undefined\<close>. The handlers index plain objects with column names, and the raw
  query route reads \<open>query\<close> and \<open>params\<close>, which no other JSON value has.
\<close>

fun js_get :: "jsval \<Rightarrow> jstring \<Rightarrow> jsval" where
  "js_get (Obj kvs) k =
     (case map_of kvs k of
        Some v \<Rightarrow> v
      | None \<Rightarrow> if k \<in> set object_prototype_names then Builtin k else Undefined)"
| "js_get v k = Undefined"

text \<open>\<open>Object.keys\<close> and \<open>Object.values\<close>, which the handlers call on plain objects only.\<close>

fun object_keys :: "jsval \<Rightarrow> jstring list" where
  "object_keys (Obj kvs) = map fst kvs"
| "object_keys v = []"

fun object_values :: "jsval \<Rightarrow> jsval list" where
  "object_values (Obj kvs) = map snd kvs"
| "object_values v = []"

text \<open>\<open>Array.prototype.join\<close> on an array of strings.\<close>

fun join :: "jstring \<Rightarrow> jstring list \<Rightarrow> jstring" where
  "join sep [] = []"
| "join sep [x] = x"
| "join sep (x # y # ys) = x @ sep @ join sep (y # ys)"

text \<open>\<open>s.startsWith(p)\<close>; \<open>s.substring(n)\<close> is \<open>drop n s\<close>.\<close>

definition startsWith :: "jstring \<Rightarrow> jstring \<Rightarrow> bool" where
  "startsWith s p \<longleftrightarrow> take (length p) s = p"

section \<open>Identifier sanitizer\<close>

text \<open>The character class \<open>[a-zA-Z0-9_]\<close> whose complement the sanitizer deletes.\<close>

definition ident_char :: "code_unit \<Rightarrow> bool" where
  "ident_char c \<longleftrightarrow>
     (unit_of CHR ''a'' \<le> c \<and> c \<le> unit_of CHR ''z'') \<or>
     (unit_of CHR ''A'' \<le> c \<and> c \<le> unit_of CHR ''Z'') \<or>
     (unit_of CHR ''0'' \<le> c \<and> c \<le> unit_of CHR ''9'') \<or>
     c = unit_of CHR ''_''"

text \<open>\<open>identifier.replace(/[^a-zA-Z0-9_]/g, '')\<close>: every unit outside the class is removed.\<close>

fun sanitizeIdentifier :: "jstring \<Rightarrow> jstring" where
  "sanitizeIdentifier [] = []"
| "sanitizeIdentifier (c # cs) =
     (if ident_char c then c # sanitizeIdentifier cs else sanitizeIdentifier cs)"

definition sanitizeKeyword :: "jstring \<Rightarrow> jstring" where
  "sanitizeKeyword identifier = js ''`'' @ sanitizeIdentifier identifier @ js ''`''"

section \<open>Compiled statements\<close>

text \<open>
  What every handler returns: \<open>{status, message, params?}\<close>. On status 200 the message is
  the SQL text; \<open>params\<close> is absent (\<open>None\<close>) on the error returns and in everything
  \<open>handleDelete\<close> returns.
\<close>

record handler_result =
  status :: nat
  message :: jstring
  params :: "jsval list option"

text \<open>The number of \<open>?\<close> placeholders of an SQL text.\<close>

definition placeholder_count :: "jstring \<Rightarrow> nat" where
  "placeholder_count sql = length (filter (\<lambda>c. c = unit_of CHR ''?'') sql)"

section \<open>Query compiler\<close>

text \<open>
  The context \<open>c\<close> of a request, as far as the handlers read it: the method, the path
  of the URL, the entries of its \<open>URLSearchParams\<close> in order (already decoded by the
  runtime), what \<open>c.req.json()\<close> gives (\<open>Inl m\<close>: it rejects with an error of message
  \<open>m\<close>), and the \<open>Authorization\<close> header.
\<close>

record request =
  req_method :: jstring
  req_pathname :: jstring
  req_searchParams :: "(jstring \<times> jstring) list"
  req_json :: "jstring + jsval"
  req_authorization :: "jstring option"

text \<open>\<open>searchParams.get(name)\<close>: the first value of that name, or \<open>null\<close>.\<close>

definition searchParams_get :: "(jstring \<times> jstring) list \<Rightarrow> jstring
    \<Rightarrow> jstring option" where
  "searchParams_get sp name = map_of sp name"

subsection \<open>Read (GET)\<close>

definition reserved_keys :: "jstring list" where
  "reserved_keys = [js ''sort_by'', js ''order'', js ''limit'', js ''offset'']"

text \<open>The ID filter: \<open>if (id) { conditions.push('id = ?'); params.push(id) }\<close>.\<close>

fun id_filter :: "jstring option \<Rightarrow> jstring list \<times> jsval list" where
  "id_filter None = ([], [])"
| "id_filter (Some i) = (if i \<noteq> [] then ([js ''id = ?''], [Str i]) else ([], []))"

text \<open>The loop over \<open>searchParams.entries()\<close>, pushing onto \<open>conditions\<close> and \<open>params\<close>.\<close>

fun search_filters ::
  "(jstring \<times> jstring) list \<Rightarrow> jstring list \<times> jsval list \<Rightarrow>
      jstring list \<times> jsval list" where
  "search_filters [] (conditions, ps) = (conditions, ps)"
| "search_filters ((key, val) # rest) (conditions, ps) =
     (if key \<in> set reserved_keys then search_filters rest (conditions, ps)
      else search_filters rest
             (conditions @ [sanitizeIdentifier key @ js '' = ?''], ps @ [Str val]))"

definition add_where :: "jstring \<Rightarrow> jstring list \<Rightarrow> jstring" where
  "add_where query conditions =
     (if length conditions > 0 then query @ js '' WHERE '' @ join (js '' AND '') conditions
      else query)"

text \<open>\<open>searchParams.get('order')?.toUpperCase() === 'DESC' ? 'DESC' : 'ASC'\<close>\<close>

definition order_direction :: "engine \<Rightarrow> jstring option \<Rightarrow> jstring" where
  "order_direction rt ord =
     (if map_option (toUpperCase rt) ord = Some (js ''DESC'') then js ''DESC''
      else js ''ASC'')"

definition add_sorting :: "engine \<Rightarrow> jstring \<Rightarrow>
    (jstring \<times> jstring) list \<Rightarrow> jstring" where
  "add_sorting rt query sp =
     (case searchParams_get sp (js ''sort_by'') of
        None \<Rightarrow> query
      | Some sortBy \<Rightarrow>
          if sortBy \<noteq> [] then
            query @ js '' ORDER BY '' @ sanitizeIdentifier sortBy @ js '' ''
              @ order_direction rt (searchParams_get sp (js ''order''))
          else query)"

definition add_pagination ::
  "engine \<Rightarrow> jstring \<times> jsval list \<Rightarrow> (jstring \<times> jstring) list
     \<Rightarrow> jstring \<times> jsval list" where
  "add_pagination rt qp sp =
     (case searchParams_get sp (js ''limit'') of
        None \<Rightarrow> qp
      | Some limit \<Rightarrow>
          if limit \<noteq> [] then
            (let qp1 = (fst qp @ js '' LIMIT ?'', snd qp @ [Num (parseInt rt limit)])
             in case searchParams_get sp (js ''offset'') of
                  None \<Rightarrow> qp1
                | Some offset \<Rightarrow>
                    if offset \<noteq> [] then
                      (fst qp1 @ js '' OFFSET ?'', snd qp1 @ [Num (parseInt rt offset)])
                    else qp1)
          else qp)"

text \<open>
  \<open>handleGet\<close>. Nothing in its \<open>try\<close> block throws on strings, so the status is always 200.
  The source's parameter \<open>id\<close> is \<open>rid\<close> here and below (\<open>id\<close> is HOL's identity).
\<close>

definition handleGet ::
  "engine \<Rightarrow> request \<Rightarrow> jstring \<Rightarrow> jstring option
      \<Rightarrow> handler_result" where
  "handleGet rt c tableName rid =
     (let table = sanitizeKeyword tableName;
          sp = req_searchParams c;
          query = js ''SELECT * FROM '' @ table;
          (conditions, ps) = search_filters sp (id_filter rid);
          query = add_where query conditions;
          query = add_sorting rt query sp;
          (query, ps) = add_pagination rt (query, ps) sp
      in \<lparr>status = 200, message = query, params = Some ps\<rparr>)"

subsection \<open>Create (POST), update (PUT and PATCH), delete\<close>

text \<open>\<open>!data || typeof data !== 'object' || Array.isArray(data)\<close>\<close>

definition invalid_data :: "jsval \<Rightarrow> bool" where
  "invalid_data data \<longleftrightarrow> \<not> truthy data
      \<or> js_typeof data \<noteq> js ''object'' \<or> isArray data"

text \<open>
  The handlers that read a body await \<open>c.req.json()\<close> outside their \<open>try\<close>: when it
  rejects, so does the handler (\<open>Inl\<close>).
\<close>

datatype exn =
    Thrown jstring
  | ReferenceError jstring
  | TypeError

definition handlePost :: "request \<Rightarrow> jstring \<Rightarrow> exn + handler_result" where
  "handlePost c tableName =
     (let table = sanitizeKeyword tableName
      in case req_json c of
           Inl m \<Rightarrow> Inl (Thrown m)
         | Inr data \<Rightarrow>
             if invalid_data data then
               Inr \<lparr>status = 400, message = js ''Invalid data format'', params
                   = None\<rparr>
             else
               (let columns = map sanitizeIdentifier (object_keys data);
                    placeholders = join (js '', '') (map (\<lambda>_. js ''?'') columns);
                    query = js ''INSERT INTO '' @ table @ js '' ('' @ join (js '', '') columns
                              @ js '') VALUES ('' @ placeholders @ js '')'';
                    ps = map (\<lambda>col. js_get data col) columns
                in Inr \<lparr>status = 200, message = query, params = Some ps\<rparr>))"

definition handleUpdate :: "request \<Rightarrow> jstring \<Rightarrow> jstring \<Rightarrow>
    exn + handler_result" where
  "handleUpdate c tableName rid =
     (let table = sanitizeKeyword tableName
      in case req_json c of
           Inl m \<Rightarrow> Inl (Thrown m)
         | Inr data \<Rightarrow>
             if invalid_data data then
               Inr \<lparr>status = 400, message = js ''Invalid data format'', params
                   = None\<rparr>
             else
               (let setColumns =
                      join (js '', '')
                        (map (\<lambda>col. col @ js '' = ?'')
                           (map sanitizeIdentifier (object_keys data)));
                    query = js ''UPDATE '' @ table @ js '' SET '' @ setColumns
                        @ js '' WHERE id = ?'';
                    ps = object_values data @ [Str rid]
                in Inr \<lparr>status = 200, message = query, params = Some ps\<rparr>))"

definition handleDelete :: "request \<Rightarrow> jstring \<Rightarrow> jstring \<Rightarrow>
    handler_result" where
  "handleDelete c tableName rid =
     (let table = sanitizeKeyword tableName;
          query = js ''DELETE FROM '' @ table @ js '' WHERE id = ?''
      in \<lparr>status = 200, message = query, params = None\<rparr>)"

section \<open>Database dispatcher\<close>

text \<open>
  The three D1 bindings of the environment, and what is sent to one of them by
  \<open>db.prepare(sql).bind(...values).all()\<close> or \<open>.run()\<close>. The databases are outside the
  program: the driver is a parameter that answers a call with a result or throws an
  error with a message (\<open>Inl\<close>). Every handler returns its response together with the
  calls it sent, in order.
\<close>

datatype d1_database = MCW_DB | UTILITY_DB | CATALOG_DB

datatype exec_kind = ExecAll | ExecRun

record 'q d1_call =
  call_db :: d1_database
  call_sql :: 'q
  call_bound :: "jsval list"
  call_kind :: exec_kind

type_synonym ('q, 'r) driver = "'q d1_call \<Rightarrow> jstring + 'r"

text \<open>
  The bodies of \<open>c.json(...)\<close>: \<open>{error: <literal>}\<close>, \<open>{error: error.message}\<close> of a
  caught exception, the driver's result, the creation acknowledgement around the
  driver's result, a bare JSON string, and \<open>{message: <literal>}\<close>. A handler that
  does not catch an exception ends with \<open>Uncaught\<close>.
\<close>

datatype 'r body =
    ErrorBody jstring
  | CaughtBody exn
  | JsonBody 'r
  | CreatedBody 'r
  | TextBody jstring
  | MessageBody jstring

datatype 'r outcome = Response nat "'r body" | Uncaught exn

text \<open>The \<open>switch (db_name)\<close> that every branch repeats; \<open>None\<close> is its \<open>default\<close>.\<close>

definition select_db :: "jstring \<Rightarrow> d1_database option" where
  "select_db db_name =
     (if db_name = js ''mcw_db'' then Some MCW_DB
      else if db_name = js ''utility_db'' then Some UTILITY_DB
      else if db_name = js ''catalog_db'' then Some CATALOG_DB
      else None)"

text \<open>\<open>params || []\<close> on an optional array.\<close>

fun or_empty :: "jsval list option \<Rightarrow> jsval list" where
  "or_empty None = []"
| "or_empty (Some ps) = ps"

text \<open>\<open>url.pathname.split('/').filter(Boolean)\<close>\<close>

fun js_split :: "code_unit \<Rightarrow> jstring \<Rightarrow> jstring list" where
  "js_split sep [] = [[]]"
| "js_split sep (c # cs) =
     (if c = sep then [] # js_split sep cs
      else case js_split sep cs of [] \<Rightarrow> [[c]] | w # ws \<Rightarrow> (c # w) # ws)"

definition path_parts :: "jstring \<Rightarrow> jstring list" where
  "path_parts pathname = filter (\<lambda>p. p \<noteq> []) (js_split
      (unit_of CHR ''/'') pathname)"

text \<open>
  A \<open>const\<close> of the \<open>switch\<close> block is in scope in every \<open>case\<close> of the block, and is
  initialised only when its own declaration runs; reading it before that throws a
  \<open>ReferenceError\<close>.
\<close>

datatype 'a binding = Uninitialized | Initialized 'a

fun read_binding :: "jstring \<Rightarrow> 'a binding \<Rightarrow> exn + 'a" where
  "read_binding name Uninitialized = Inl (ReferenceError name)"
| "read_binding name (Initialized v) = Inr v"

subsection \<open>The branches of \<open>handleRest\<close>\<close>

definition rest_get ::
  "engine \<Rightarrow> (jstring, 'r) driver \<Rightarrow> request \<Rightarrow> jstring
      \<Rightarrow> jstring \<Rightarrow> jstring option
     \<Rightarrow> 'r outcome \<times> jstring d1_call list" where
  "rest_get rt driver c db_name tableName rid =
     (let result = handleGet rt c tableName rid
      in if status result \<noteq> 200 then
           (Response (status result) (ErrorBody (message result)), [])
         else
           case select_db db_name of
             None \<Rightarrow> (Response 400 (ErrorBody (js ''Unknown database name'')), [])
           | Some db \<Rightarrow>
               (let call = \<lparr>call_db = db, call_sql = message result,
                            call_bound = or_empty (params result), call_kind = ExecAll\<rparr>
                in case driver call of
                     Inl m \<Rightarrow> (Response 500 (CaughtBody (Thrown m)), [call])
                   | Inr results \<Rightarrow> (Response 200 (JsonBody results), [call])))"

definition rest_post ::
  "(jstring, 'r) driver \<Rightarrow> request \<Rightarrow> jstring \<Rightarrow> jstring
     \<Rightarrow> 'r outcome \<times> jstring d1_call list" where
  "rest_post driver c db_name tableName =
     (case handlePost c tableName of
        Inl e \<Rightarrow> (Uncaught e, [])
      | Inr postResult \<Rightarrow>
          if status postResult \<noteq> 200 then
            (Response (status postResult) (ErrorBody (message postResult)), [])
          else
            (case select_db db_name of
               None \<Rightarrow> (Response 400 (ErrorBody (js ''Unknown database name'')), [])
             | Some db \<Rightarrow>
                 (let call = \<lparr>call_db = db, call_sql = message postResult,
                              call_bound = or_empty (params postResult),
                              call_kind = ExecRun\<rparr>
                  in case driver call of
                       Inl m \<Rightarrow> (Response 500 (CaughtBody (Thrown m)), [call])
                     | Inr result \<Rightarrow> (Response 201 (CreatedBody result), [call]))))"

text \<open>
  The \<open>PUT\<close>/\<open>PATCH\<close> branch binds \<open>...(params || [])\<close>, and \<open>params\<close> there is the
  \<open>const\<close> that the \<open>GET\<close> branch declares (the branch's own list is \<open>patchParams\<close>,
  which it never reads). \<open>db.prepare(patchMessage)\<close> has been evaluated when the
  argument is; nothing has been bound or run.
\<close>

definition rest_update ::
  "(jstring, 'r) driver \<Rightarrow> request \<Rightarrow> jstring \<Rightarrow> jstring
      \<Rightarrow> jstring option
     \<Rightarrow> jsval list option binding \<Rightarrow> 'r outcome \<times> jstring d1_call
         list" where
  "rest_update driver c db_name tableName rid params_of_get =
     (if \<not> truthy_str rid then (Response 400 (ErrorBody
         (js ''ID is required for updates'')), [])
      else
        case handleUpdate c tableName (case rid of Some i \<Rightarrow> i | None \<Rightarrow>
            []) of
          Inl e \<Rightarrow> (Uncaught e, [])
        | Inr patchResult \<Rightarrow>
            if status patchResult \<noteq> 200 then
              (Response (status patchResult) (ErrorBody (message patchResult)), [])
            else
              (case select_db db_name of
                 None \<Rightarrow> (Response 400 (ErrorBody (js ''Unknown database name'')), [])
               | Some db \<Rightarrow>
                   (case read_binding (js ''params'') params_of_get of
                      Inl e \<Rightarrow> (Response 500 (CaughtBody e), [])
                    | Inr ps \<Rightarrow>
                        (let call = \<lparr>call_db = db, call_sql = message patchResult,
                                     call_bound = or_empty ps, call_kind = ExecAll\<rparr>
                         in case driver call of
                              Inl m \<Rightarrow> (Response 500 (CaughtBody (Thrown m)), [call])
                            | Inr results \<Rightarrow>
                                (Response 200 (TextBody (js ''Resource updated successfully'')),
                                 [call])))))"

text \<open>The \<open>DELETE\<close> branch calls \<open>.bind()\<close> with no argument.\<close>

definition rest_delete ::
  "(jstring, 'r) driver \<Rightarrow> request \<Rightarrow> jstring \<Rightarrow> jstring
      \<Rightarrow> jstring option
     \<Rightarrow> 'r outcome \<times> jstring d1_call list" where
  "rest_delete driver c db_name tableName rid =
     (if \<not> truthy_str rid then (Response 400 (ErrorBody
         (js ''ID is required for deletion'')), [])
      else
        (let deleteResult = handleDelete c tableName (case rid of Some i \<Rightarrow> i | None
            \<Rightarrow> [])
         in if status deleteResult \<noteq> 200 then
              (Response (status deleteResult) (ErrorBody (message deleteResult)), [])
            else
              case select_db db_name of
                None \<Rightarrow> (Response 400 (ErrorBody (js ''Unknown database name'')), [])
              | Some db \<Rightarrow>
                  (let call = \<lparr>call_db = db, call_sql = message deleteResult,
                               call_bound = [], call_kind = ExecRun\<rparr>
                   in case driver call of
                        Inl m \<Rightarrow> (Response 500 (CaughtBody (Thrown m)), [call])
                      | Inr results \<Rightarrow>
                          (Response 200 (MessageBody (js ''Resource deleted successfully'')),
                           [call]))))"

subsection \<open>\<open>handleRest\<close>\<close>

text \<open>
  \<open>pathParts[3]\<close> is \<open>undefined\<close> when the path has three parts. Outside the \<open>GET\<close>
  branch the \<open>const params\<close> of that branch has not been initialised.
\<close>

definition handleRest ::
  "engine \<Rightarrow> (jstring, 'r) driver \<Rightarrow> request \<Rightarrow> 'r outcome
      \<times> jstring d1_call list" where
  "handleRest rt driver c =
     (let pathParts = path_parts (req_pathname c)
      in if length pathParts < 3 then
           (Response 400
              (ErrorBody
                 (js ''Invalid path. Expected format: /rest/{db_name}/{tableName}/{id?}'')),
            [])
         else
           (let db_name = pathParts ! 1;
                tableName = pathParts ! 2;
                rid = (if 3 < length pathParts then Some (pathParts ! 3) else None)
            in if req_method c = js ''GET'' then rest_get rt driver c db_name tableName rid
               else if req_method c = js ''POST'' then rest_post driver c db_name tableName
               else if req_method c = js ''PUT'' \<or> req_method c = js ''PATCH'' then
                 rest_update driver c db_name tableName rid Uninitialized
               else if req_method c = js ''DELETE'' then
                 rest_delete driver c db_name tableName rid
               else (Response 405 (ErrorBody (js ''Method not allowed'')), [])))"

section \<open>Authentication and the raw query route\<close>

text \<open>A middleware answers itself or hands over with \<open>return next()\<close>.\<close>

datatype 'a middleware = Respond 'a | Next

text \<open>\<open>authHeader.startsWith('Bearer ') ? authHeader.substring(7) : authHeader\<close>\<close>

definition bearer_token :: "jstring \<Rightarrow> jstring" where
  "bearer_token authHeader =
     (if startsWith authHeader (js ''Bearer '') then drop 7 authHeader else authHeader)"

definition authMiddleware :: "jstring \<Rightarrow> request \<Rightarrow> 'r outcome
    middleware" where
  "authMiddleware secret c =
     (case req_authorization c of
        None \<Rightarrow> Respond (Response 401 (ErrorBody (js ''Unauthorized'')))
      | Some authHeader \<Rightarrow>
          if authHeader = [] then Respond (Response 401 (ErrorBody (js ''Unauthorized'')))
          else if bearer_token authHeader \<noteq> secret then
            Respond (Response 401 (ErrorBody (js ''Unauthorized'')))
          else Next)"

text \<open>
  Spreading \<open>...(params || [])\<close> into \<open>bind\<close>: an array gives its elements, a string its
  characters (a surrogate pair is one character of two units), and any other truthy
  value is not iterable.
\<close>

fun code_points :: "jstring \<Rightarrow> jstring list" where
  "code_points [] = []"
| "code_points [u] = [[u]]"
| "code_points (u # v # rest) =
     (if 0xD800 \<le> u \<and> u \<le> 0xDBFF \<and> 0xDC00 \<le> v \<and> v \<le> 0xDFFF
      then [u, v] # code_points rest
      else [u] # code_points (v # rest))"

fun spread :: "jsval \<Rightarrow> exn + jsval list" where
  "spread (Arr xs) = Inr xs"
| "spread (Str s) = Inr (map Str (code_points s))"
| "spread v = Inl TypeError"

text \<open>
  The handler of \<open>POST /query/*\<close>; all of it is inside one \<open>try\<close>. Destructuring
  \<open>{query, params}\<close> from \<open>null\<close> throws; from any other JSON value that is not an
  object with these keys it gives \<open>undefined\<close>.
\<close>

definition handleQuery ::
  "(jsval, 'r) driver \<Rightarrow> request \<Rightarrow> 'r outcome \<times> jsval d1_call
      list" where
  "handleQuery driver c =
     (let pathParts = path_parts (req_pathname c)
      in if length pathParts < 2 then
           (Response 400 (ErrorBody (js ''Invalid path. Expected format: /rest/{db_name}'')), [])
         else
           (let db_name = pathParts ! 1
            in case req_json c of
                 Inl m \<Rightarrow> (Response 500 (CaughtBody (Thrown m)), [])
               | Inr body \<Rightarrow>
                   if body = Null \<or> body = Undefined then
                     (Response 500 (CaughtBody TypeError), [])
                   else
                     (let query = js_get body (js ''query'');
                          ps = js_get body (js ''params'')
                      in if \<not> truthy query then
                           (Response 400 (ErrorBody (js ''Query is required'')), [])
                         else
                           case select_db db_name of
                             None \<Rightarrow>
                               (Response 400 (ErrorBody (js ''Unknown database name'')), [])
                           | Some db \<Rightarrow>
                               (case spread (if truthy ps then ps else Arr []) of
                                  Inl e \<Rightarrow> (Response 500 (CaughtBody e), [])
                                | Inr values \<Rightarrow>
                                    (let call = \<lparr>call_db = db, call_sql = query,
                                                 call_bound = values,
                                                 call_kind = ExecAll\<rparr>
                                     in case driver call of
                                          Inl m \<Rightarrow>
                                            (Response 500 (CaughtBody (Thrown m)), [call])
                                        | Inr results \<Rightarrow>
                                            (Response 200 (JsonBody results), [call]))))))"

text \<open>
  \<open>app.all('/rest/*', authMiddleware, handleRest)\<close> and
  \<open>app.post('/query/*', authMiddleware, ...)\<close>: the protected routes, once the
  framework has matched the request. Matching paths and methods is the framework's
  work, and so is the CORS middleware that runs before these and answers an
  \<open>OPTIONS\<close> request itself; neither is modelled.
\<close>

definition rest_route ::
  "jstring \<Rightarrow> engine \<Rightarrow> (jstring, 'r) driver \<Rightarrow> request
     \<Rightarrow> 'r outcome \<times> jstring d1_call list" where
  "rest_route secret rt driver c =
     (case authMiddleware secret c of
        Respond r \<Rightarrow> (r, [])
      | Next \<Rightarrow> handleRest rt driver c)"

definition query_route ::
  "jstring \<Rightarrow> (jsval, 'r) driver \<Rightarrow> request \<Rightarrow> 'r outcome
      \<times> jsval d1_call list" where
  "query_route secret driver c =
     (case authMiddleware secret c of
        Respond r \<Rightarrow> (r, [])
      | Next \<Rightarrow> handleQuery driver c)"

section \<open>Requests and databases of the examples\<close>

text \<open>
  Two stand-ins for a database in the worked examples: one rejects every statement,
  one accepts every statement and returns nothing of interest.
\<close>

definition refusing_driver :: "('q, unit) driver" where
  "refusing_driver call = Inl (js ''D1_ERROR'')"

definition accepting_driver :: "('q, unit) driver" where
  "accepting_driver call = Inr ()"

text \<open>
  A request with the entries \<open>limit\<close> and \<open>offset\<close> removed from its query string; the
  statement compiled from it is what pagination is appended to.
\<close>

definition without_pagination :: "request \<Rightarrow> request" where
  "without_pagination c =
     c\<lparr>req_searchParams :=
         filter (\<lambda>(k, v). k \<noteq> js ''limit'' \<and> k \<noteq> js ''offset'')
             (req_searchParams c)\<rparr>"

text \<open>
  Equality of two strings up to case, as the engine decides it: their upper-case forms
  are equal. This is what the specification calls case-insensitive equality.
\<close>

definition equals_ignoring_case :: "engine \<Rightarrow> jstring \<Rightarrow> jstring
    \<Rightarrow> bool" where
  "equals_ignoring_case rt a b \<longleftrightarrow> toUpperCase rt a = toUpperCase rt b"

text \<open>
  An engine for the worked examples. It is no model of an engine: it answers as a
  JavaScript engine does on the strings the examples use, \<open>parseInt('10')\<close> and
  \<open>parseInt('20')\<close> and the upper case of \<open>desc\<close>, also when spelt with the long s
  U+017F, and its other answers are arbitrary. The theorems are about every engine.
\<close>

definition example_engine :: engine where
  "example_engine =
     \<lparr>parseInt =
        (\<lambda>s. if s = js ''10'' then Finite 10 else if s = js ''20'' then Finite 20 else NaN),
      toUpperCase =
        (\<lambda>s. if s = js ''desc'' \<or> s = js ''de'' @ [0x17F] @ js ''c'' then js ''DESC''
             else s)\<rparr>"

section \<open>Properties of the sanitizer\<close>

lemma sanitizeIdentifier_filter: "sanitizeIdentifier s = filter ident_char s"
  by (induction s) simp_all

lemma ident_char_sanitized: "c \<in> set (sanitizeIdentifier s) \<Longrightarrow> ident_char c"
  by (simp add: sanitizeIdentifier_filter)

lemma ident_char_iff:
  "ident_char c \<longleftrightarrow>
     c \<in> set (js ''abcdefghijklmnopqrstuvwxyzABCDEFGHIJKLMNOPQRSTUVWXYZ0123456789_'')"
  by (simp add: ident_char_def) arith

lemma not_ident_char_punctuation:
  "ch \<in> ({unit_of (CHR 0x27), unit_of (CHR 0x22), unit_of (CHR 0x60), unit_of (CHR 0x09),
           unit_of (CHR 0x0A), unit_of (CHR 0x0D)} \<union> set
               (js '' ;-(),=*?'')) \<Longrightarrow> \<not> ident_char ch"
  by (auto simp: ident_char_def)

text \<open>
  Claim C4. Whatever the string, the sanitized identifier consists of ASCII letters,
  digits and underscores only; in particular no quote, white space or SQL punctuation
  survives (and no unit outside ASCII). Sanitizing a second time changes nothing.
\<close>

theorem sanitizeIdentifier_safe_idempotent:
  "(\<forall>ch \<in> set (sanitizeIdentifier s).
      ch \<in> set (js ''abcdefghijklmnopqrstuvwxyzABCDEFGHIJKLMNOPQRSTUVWXYZ0123456789_''))
   \<and> set (sanitizeIdentifier s)
       \<inter> ({unit_of (CHR 0x27), unit_of (CHR 0x22), unit_of (CHR 0x60), unit_of (CHR 0x09),
           unit_of (CHR 0x0A), unit_of (CHR 0x0D)} \<union> set (js '' ;-(),=*?'')) = {}
   \<and> sanitizeIdentifier (sanitizeIdentifier s) = sanitizeIdentifier s"
proof (intro conjI)
  show "\<forall>ch \<in> set (sanitizeIdentifier s).
      ch \<in> set (js ''abcdefghijklmnopqrstuvwxyzABCDEFGHIJKLMNOPQRSTUVWXYZ0123456789_'')"
  proof
    fix ch
    assume "ch \<in> set (sanitizeIdentifier s)"
    then have "ident_char ch"
      by (rule ident_char_sanitized)
    then show
      "ch \<in> set (js ''abcdefghijklmnopqrstuvwxyzABCDEFGHIJKLMNOPQRSTUVWXYZ0123456789_'')"
      by (rule iffD1 [OF ident_char_iff])
  qed
  show "set (sanitizeIdentifier s)
       \<inter> ({unit_of (CHR 0x27), unit_of (CHR 0x22), unit_of (CHR 0x60), unit_of (CHR 0x09),
           unit_of (CHR 0x0A), unit_of (CHR 0x0D)} \<union> set (js '' ;-(),=*?'')) = {}"
  proof (rule ccontr)
    assume "\<not> ?thesis"
    then obtain ch where a: "ch \<in> set (sanitizeIdentifier s)"
      and b: "ch \<in> ({unit_of (CHR 0x27), unit_of (CHR 0x22), unit_of (CHR 0x60),
          unit_of (CHR 0x09),
           unit_of (CHR 0x0A), unit_of (CHR 0x0D)} \<union> set (js '' ;-(),=*?''))"
      by (meson disjoint_iff)
    from a have "ident_char ch" by (rule ident_char_sanitized)
    with not_ident_char_punctuation [OF b] show False by contradiction
  qed
  show "sanitizeIdentifier (sanitizeIdentifier s) = sanitizeIdentifier s"
    by (simp add: sanitizeIdentifier_filter)
qed

theorem sanitizeIdentifier_safe_idempotent_witness:
  "sanitizeIdentifier (js ''users`; DROP TABLE users; --'') = js ''usersDROPTABLEusers''
   \<and> set (sanitizeIdentifier (js ''users`; DROP TABLE users; --''))
       \<subseteq> set (js ''abcdefghijklmnopqrstuvwxyzABCDEFGHIJKLMNOPQRSTUVWXYZ0123456789_'')
   \<and> sanitizeIdentifier (sanitizeIdentifier (js ''users`; DROP TABLE users; --''))
       = sanitizeIdentifier (js ''users`; DROP TABLE users; --'')"
proof -
  note t = sanitizeIdentifier_safe_idempotent [of "js ''users`; DROP TABLE users; --''"]
  have e:
    "sanitizeIdentifier (js ''users`; DROP TABLE users; --'') = js ''usersDROPTABLEusers''"
    by (simp add: ident_char_def)
  have s: "set (sanitizeIdentifier (js ''users`; DROP TABLE users; --''))
       \<subseteq> set (js ''abcdefghijklmnopqrstuvwxyzABCDEFGHIJKLMNOPQRSTUVWXYZ0123456789_'')"
    by (rule subsetI) (rule bspec [OF t [THEN conjunct1]])
  from e s t [THEN conjunct2, THEN conjunct2] show ?thesis
    by (intro conjI)
qed

section \<open>Placeholders and bound values\<close>

lemma placeholder_count_append [simp]:
  "placeholder_count (a @ b) = placeholder_count a + placeholder_count b"
  by (simp add: placeholder_count_def)

lemma placeholder_count_Nil [simp]: "placeholder_count [] = 0"
  by (simp add: placeholder_count_def)

lemma placeholder_count_Cons [simp]:
  "placeholder_count (ch # s) = (if ch = unit_of CHR ''?'' then 1 else 0) + placeholder_count s"
  by (simp add: placeholder_count_def)

lemma placeholder_count_sanitizeIdentifier [simp]:
  "placeholder_count (sanitizeIdentifier s) = 0"
  by (induction s) (auto simp: ident_char_def)

lemma placeholder_count_sanitizeKeyword [simp]:
  "placeholder_count (sanitizeKeyword s) = 0"
  by (simp add: sanitizeKeyword_def)

lemma search_filters_eq:
  "search_filters sp (cs, ps) =
     (cs @ map (\<lambda>(k, v). sanitizeIdentifier k @ js '' = ?'')
             (filter (\<lambda>(k, v). k \<notin> set reserved_keys) sp),
      ps @ map (\<lambda>(k, v). Str v) (filter (\<lambda>(k, v). k \<notin> set reserved_keys)
          sp))"
  by (induction sp "(cs, ps)" arbitrary: cs ps rule: search_filters.induct) auto

lemma placeholder_count_join:
  "placeholder_count (join sep xs)
     = sum_list (map placeholder_count xs) + (length xs - 1) * placeholder_count sep"
  by (induction xs rule: induct_list012) simp_all

lemma sum_list_all_one:
  "\<forall>x \<in> set xs. f x = (1::nat) \<Longrightarrow> sum_list (map f xs) = length xs"
  by (induction xs) simp_all

lemma sum_list_all_zero:
  "\<forall>x \<in> set xs. f x = (0::nat) \<Longrightarrow> sum_list (map f xs) = 0"
  by (induction xs) simp_all

lemma id_filter_conditions:
  "id_filter rid = (cs, ps) \<Longrightarrow>
     (\<forall>x \<in> set cs. placeholder_count x = 1) \<and> length cs = length ps"
  by (cases rid) (auto split: if_splits)

lemma search_filters_conditions:
  assumes "\<forall>x \<in> set cs. placeholder_count x = 1" and "length cs = length ps"
    and "search_filters sp (cs, ps) = (cs', ps')"
  shows "(\<forall>x \<in> set cs'. placeholder_count x = 1) \<and> length cs' = length ps'"
  using assms by (auto simp: search_filters_eq)

lemma placeholder_count_add_where:
  assumes "\<forall>x \<in> set cs. placeholder_count x = 1"
  shows "placeholder_count (add_where q cs) = placeholder_count q + length cs"
  using assms by (simp add: add_where_def placeholder_count_join sum_list_all_one)

lemma placeholder_count_order_direction [simp]:
  "placeholder_count (order_direction rt ord) = 0"
  by (simp add: order_direction_def)

lemma placeholder_count_add_sorting [simp]:
  "placeholder_count (add_sorting rt q sp) = placeholder_count q"
  by (simp add: add_sorting_def split: option.split)

lemma placeholder_count_add_pagination:
  assumes "placeholder_count q = length ps" and "add_pagination rt (q, ps) sp = (q', ps')"
  shows "placeholder_count q' = length ps'"
  using assms by (auto simp: add_pagination_def Let_def split: option.splits if_splits)

lemma handleGet_placeholders:
  "placeholder_count (message (handleGet rt c t rid))
     = length (or_empty (params (handleGet rt c t rid)))"
proof -
  obtain cs0 ps0 where i: "id_filter rid = (cs0, ps0)"
    by (cases "id_filter rid")
  obtain cs ps where f: "search_filters (req_searchParams c) (cs0, ps0) = (cs, ps)"
    by (cases "search_filters (req_searchParams c) (cs0, ps0)")
  let ?q = "add_sorting rt (add_where (js ''SELECT * FROM '' @ sanitizeKeyword t) cs)
              (req_searchParams c)"
  obtain q' ps' where p: "add_pagination rt (?q, ps) (req_searchParams c) = (q', ps')"
    by (cases "add_pagination rt (?q, ps) (req_searchParams c)")
  from id_filter_conditions [OF i] search_filters_conditions [OF _ _ f]
  have c: "\<forall>x \<in> set cs. placeholder_count x = 1" and l: "length cs = length ps"
    by blast+
  have "placeholder_count ?q = length ps"
    using c l by (simp add: placeholder_count_add_where)
  from placeholder_count_add_pagination [OF this p]
  have "placeholder_count q' = length ps'" .
  then show ?thesis
    using p by (simp add: handleGet_def Let_def i f)
qed

lemma valid_data_is_object: "\<not> invalid_data d \<Longrightarrow> \<exists>kvs. d = Obj kvs"
  by (cases d) (simp_all add: invalid_data_def)

lemma handlePost_placeholders:
  assumes "handlePost c t = Inr r"
  shows "placeholder_count (message r) = length (or_empty (params r))"
proof (cases "req_json c")
  case (Inl m)
  with assms show ?thesis by (simp add: handlePost_def)
next
  case (Inr d)
  show ?thesis
  proof (cases "invalid_data d")
    case True
    with assms Inr show ?thesis by (auto simp: handlePost_def)
  next
    case False
    then obtain kvs where "d = Obj kvs" using valid_data_is_object by blast
    with assms Inr False show ?thesis
      by (auto simp: handlePost_def Let_def placeholder_count_join sum_list_all_zero
          sum_list_all_one)
  qed
qed

lemma handleUpdate_placeholders:
  assumes "handleUpdate c t rid = Inr r"
  shows "placeholder_count (message r) = length (or_empty (params r))"
proof (cases "req_json c")
  case (Inl m)
  with assms show ?thesis by (simp add: handleUpdate_def)
next
  case (Inr d)
  show ?thesis
  proof (cases "invalid_data d")
    case True
    with assms Inr show ?thesis by (auto simp: handleUpdate_def)
  next
    case False
    then obtain kvs where "d = Obj kvs" using valid_data_is_object by blast
    with assms Inr False show ?thesis
      by (auto simp: handleUpdate_def Let_def placeholder_count_join sum_list_all_one)
  qed
qed

subsection \<open>Statements that reach the driver\<close>

lemma path_parts_nonempty: "p \<in> set (path_parts s) \<Longrightarrow> p \<noteq> []"
  by (simp add: path_parts_def)

lemma rest_get_calls:
  assumes "call \<in> set (snd (rest_get rt driver c db_name t rid))"
  shows "placeholder_count (call_sql call) = length (call_bound call)"
  using assms handleGet_placeholders [of rt c t rid]
  by (auto simp: rest_get_def Let_def split: if_splits option.splits sum.splits)

lemma rest_post_calls:
  assumes "call \<in> set (snd (rest_post driver c db_name t))"
  shows "placeholder_count (call_sql call) = length (call_bound call)"
proof (cases "handlePost c t")
  case (Inl e)
  with assms show ?thesis by (simp add: rest_post_def)
next
  case (Inr r)
  with assms handlePost_placeholders [OF Inr] show ?thesis
    by (auto simp: rest_post_def Let_def split: if_splits option.splits sum.splits)
qed

lemma rest_update_calls: "snd (rest_update driver c db_name t rid Uninitialized) = []"
  by (simp add: rest_update_def split: sum.split option.split)

text \<open>
  Claim C1. For the statements that reach the driver, the number of \<open>?\<close> in the SQL
  text should equal the number of bound values. \<open>DELETE /rest/mcw_db/users/123\<close> sends
  one statement with one placeholder and no bound value.
\<close>

theorem delete_placeholder_without_value:
  "snd (handleRest rt driver
          \<lparr>req_method = js ''DELETE'', req_pathname = js ''/rest/mcw_db/users/123'',
           req_searchParams = [], req_json = Inl (js ''Unexpected end of JSON input''),
           req_authorization = Some (js ''Bearer s3cret'')\<rparr>)
     = [\<lparr>call_db = MCW_DB, call_sql = js ''DELETE FROM `users` WHERE id = ?'',
         call_bound = [], call_kind = ExecRun\<rparr>]
   \<and> placeholder_count (js ''DELETE FROM `users` WHERE id = ?'') = 1
   \<and> length ([] :: jsval list) = 0"
  by (simp add: handleRest_def path_parts_def rest_delete_def handleDelete_def Let_def
      sanitizeKeyword_def ident_char_def select_db_def split: sum.split)

section \<open>Update and delete at the dispatcher\<close>

text \<open>
  Claim C2. \<open>PATCH /rest/mcw_db/users/123\<close> with body \<open>{"age": 31}\<close> compiles the
  update with the values \<open>[31, "123"]\<close>, but the dispatcher reads the \<open>params\<close> of the
  \<open>GET\<close> branch instead of them: the request ends in a 500 and nothing is bound or run.
\<close>

theorem update_values_not_bound:
  "handleUpdate
      \<lparr>req_method = js ''PATCH'', req_pathname = js ''/rest/mcw_db/users/123'',
       req_searchParams = [], req_json = Inr (Obj [(js ''age'', Num (Finite 31))]),
       req_authorization = Some (js ''Bearer s3cret'')\<rparr> (js ''users'') (js ''123'')
     = Inr \<lparr>status = 200, message = js ''UPDATE `users` SET age = ? WHERE id = ?'',
            params = Some [Num (Finite 31), Str (js ''123'')]\<rparr>
   \<and> handleRest rt driver
      \<lparr>req_method = js ''PATCH'', req_pathname = js ''/rest/mcw_db/users/123'',
       req_searchParams = [], req_json = Inr (Obj [(js ''age'', Num (Finite 31))]),
       req_authorization = Some (js ''Bearer s3cret'')\<rparr>
     = (Response 500 (CaughtBody (ReferenceError (js ''params''))), [])"
  by (simp add: handleRest_def path_parts_def rest_update_def handleUpdate_def
      invalid_data_def sanitizeKeyword_def ident_char_def select_db_def)

lemma handleRest_update_calls:
  "req_method c = js ''PUT'' \<or> req_method c = js ''PATCH''
     \<Longrightarrow> snd (handleRest rt driver c) = []"
  by (auto simp: handleRest_def Let_def rest_update_calls)

text \<open>
  Claim C3. A \<open>DELETE\<close> with an id compiles to exactly
  \<open>DELETE FROM `<sanitized table>` WHERE id = ?\<close>, and the statement is sent to the
  selected database with no bound value at all.
\<close>

theorem delete_statement_binds_nothing:
  assumes "req_method c = js ''DELETE''"
    and "path_parts (req_pathname c) = r # db_name # tableName # rid # rest"
  shows "handleDelete c tableName rid
           = \<lparr>status = 200,
              message = js ''DELETE FROM `'' @ sanitizeIdentifier tableName
                          @ js ''` WHERE id = ?'',
              params = None\<rparr>
         \<and> (\<forall>db. select_db db_name = Some db \<longrightarrow>
               snd (handleRest rt driver c)
                 = [\<lparr>call_db = db,
                     call_sql = js ''DELETE FROM `'' @ sanitizeIdentifier tableName
                                  @ js ''` WHERE id = ?'',
                     call_bound = [], call_kind = ExecRun\<rparr>])
         \<and> (select_db db_name = None \<longrightarrow> snd (handleRest rt driver c) = [])"
proof -
  have "rid \<in> set (path_parts (req_pathname c))"
    by (simp add: assms(2))
  then have "rid \<noteq> []"
    by (rule path_parts_nonempty)
  then show ?thesis
    using assms
    by (simp add: handleRest_def rest_delete_def handleDelete_def sanitizeKeyword_def
        Let_def split: sum.split)
qed

theorem delete_statement_binds_nothing_witness:
  "handleDelete
      \<lparr>req_method = js ''DELETE'', req_pathname = js ''/rest/utility_db/jobs/42'',
       req_searchParams = [], req_json = Inl (js ''Unexpected end of JSON input''),
       req_authorization = None\<rparr> (js ''jobs'') (js ''42'')
     = \<lparr>status = 200, message = js ''DELETE FROM `jobs` WHERE id = ?'', params
         = None\<rparr>
   \<and> snd (handleRest example_engine (\<lambda>call. Inl (js ''D1_ERROR'') :: jstring + unit)
          \<lparr>req_method = js ''DELETE'', req_pathname = js ''/rest/utility_db/jobs/42'',
           req_searchParams = [], req_json = Inl (js ''Unexpected end of JSON input''),
           req_authorization = None\<rparr>)
     = [\<lparr>call_db = UTILITY_DB, call_sql = js ''DELETE FROM `jobs` WHERE id = ?'',
         call_bound = [], call_kind = ExecRun\<rparr>]"
  using delete_statement_binds_nothing
    [of "\<lparr>req_method = js ''DELETE'', req_pathname = js ''/rest/utility_db/jobs/42'',
          req_searchParams = [], req_json = Inl (js ''Unexpected end of JSON input''),
          req_authorization = None\<rparr>"
        "js ''rest''" "js ''utility_db''" "js ''jobs''" "js ''42''" "[]" example_engine
        "\<lambda>call. Inl (js ''D1_ERROR'') :: jstring + unit"]
  by (simp add: path_parts_def select_db_def ident_char_def)

section \<open>Create, and bodies that are not objects\<close>

lemma not_object_invalid: "\<forall>kvs. data \<noteq> Obj kvs \<Longrightarrow> invalid_data
    data"
  by (cases data) (simp_all add: invalid_data_def)

lemma object_valid [simp]: "\<not> invalid_data (Obj kvs)"
  by (simp add: invalid_data_def)

lemma rest_post_calls_known:
  assumes "handlePost c t = Inr \<lparr>status = 200, message = q, params = Some ps\<rparr>"
    and "select_db db_name = Some db"
  shows "snd (rest_post driver c db_name t)
           = [\<lparr>call_db = db, call_sql = q, call_bound = ps, call_kind = ExecRun\<rparr>]"
  using assms by (simp add: rest_post_def Let_def split: sum.split)

text \<open>
  Claim C6. A \<open>POST\<close> whose body is a JSON object compiles to
  \<open>INSERT INTO `<table>` (<columns>) VALUES (?, ..., ?)\<close>: the columns are the sanitized
  keys in key order, there is one \<open>?\<close> per column, and the value bound for a column is
  what the object holds under the sanitized column name. When the keys are safe and
  distinct these are the object's values in key order. The statement is sent with
  these values to the selected database.
\<close>

theorem handlePost_insert_statement:
  assumes "req_json c = Inr (Obj kvs)"
  shows "handlePost c tableName
           = Inr \<lparr>status = 200,
                  message = js ''INSERT INTO `'' @ sanitizeIdentifier tableName @ js ''` (''
                    @ join (js '', '') (map (\<lambda>(k, v). sanitizeIdentifier k) kvs)
                    @ js '') VALUES ('' @ join (js '', '') (replicate (length kvs) (js ''?''))
                        @ js '')'',
                  params = Some (map (\<lambda>(k, v). js_get (Obj kvs)
                      (sanitizeIdentifier k)) kvs)\<rparr>
         \<and> placeholder_count
               (js ''INSERT INTO `'' @ sanitizeIdentifier tableName @ js ''` (''
                  @ join (js '', '') (map (\<lambda>(k, v). sanitizeIdentifier k) kvs)
                  @ js '') VALUES ('' @ join (js '', '') (replicate (length kvs) (js ''?''))
                      @ js '')'')
             = length kvs
         \<and> ((\<forall>k \<in> set (map fst kvs). sanitizeIdentifier k = k) \<and> distinct
             (map fst kvs)
              \<longrightarrow> map (\<lambda>(k, v). js_get (Obj kvs)
                  (sanitizeIdentifier k)) kvs = map snd kvs)
         \<and> (req_method c = js ''POST''
              \<and> path_parts (req_pathname c) = r # db_name # tableName # rest
              \<and> select_db db_name = Some db
              \<longrightarrow> snd (handleRest rt driver c)
                    = [\<lparr>call_db = db,
                        call_sql = js ''INSERT INTO `'' @ sanitizeIdentifier tableName
                            @ js ''` (''
                          @ join (js '', '') (map (\<lambda>(k, v). sanitizeIdentifier k) kvs)
                          @ js '') VALUES ('' @ join (js '', '') (replicate (length kvs)
                              (js ''?''))
                          @ js '')'',
                        call_bound =
                          map (\<lambda>(k, v). js_get (Obj kvs) (sanitizeIdentifier k)) kvs,
                        call_kind = ExecRun\<rparr>])"
proof -
  have p: "handlePost c tableName
           = Inr \<lparr>status = 200,
                  message = js ''INSERT INTO `'' @ sanitizeIdentifier tableName @ js ''` (''
                    @ join (js '', '') (map (\<lambda>(k, v). sanitizeIdentifier k) kvs)
                    @ js '') VALUES ('' @ join (js '', '') (replicate (length kvs) (js ''?''))
                        @ js '')'',
                  params = Some (map (\<lambda>(k, v). js_get (Obj kvs)
                      (sanitizeIdentifier k)) kvs)\<rparr>"
    unfolding handlePost_def Let_def using assms
    by (simp add: comp_def case_prod_unfold map_replicate_const sanitizeKeyword_def
        del: js_get.simps)
  have c: "placeholder_count
               (js ''INSERT INTO `'' @ sanitizeIdentifier tableName @ js ''` (''
                  @ join (js '', '') (map (\<lambda>(k, v). sanitizeIdentifier k) kvs)
                  @ js '') VALUES ('' @ join (js '', '') (replicate (length kvs) (js ''?''))
                      @ js '')'')
             = length kvs"
    by (simp add: placeholder_count_join sum_list_all_zero case_prod_unfold comp_def
        sum_list_replicate)
  have v: "map (\<lambda>(k, v). js_get (Obj kvs) (sanitizeIdentifier k)) kvs = map snd kvs"
    if s: "\<forall>k \<in> set (map fst kvs). sanitizeIdentifier k = k" and d: "distinct
        (map fst kvs)"
  proof (rule map_cong [OF refl])
    fix x assume x: "x \<in> set kvs"
    obtain k w where kw: "x = (k, w)" by (cases x)
    with x s have "sanitizeIdentifier k = k" by force
    moreover from x kw d have "js_get (Obj kvs) k = w" by simp
    ultimately show "(case x of (k, v) \<Rightarrow> js_get (Obj kvs) (sanitizeIdentifier k))
        = snd x"
      using kw by (simp del: js_get.simps)
  qed
  have h: "snd (handleRest rt driver c)
                    = [\<lparr>call_db = db,
                        call_sql = js ''INSERT INTO `'' @ sanitizeIdentifier tableName
                            @ js ''` (''
                          @ join (js '', '') (map (\<lambda>(k, v). sanitizeIdentifier k) kvs)
                          @ js '') VALUES ('' @ join (js '', '') (replicate (length kvs)
                              (js ''?''))
                          @ js '')'',
                        call_bound =
                          map (\<lambda>(k, v). js_get (Obj kvs) (sanitizeIdentifier k)) kvs,
                        call_kind = ExecRun\<rparr>]"
    if "req_method c = js ''POST''"
      and "path_parts (req_pathname c) = r # db_name # tableName # rest"
      and "select_db db_name = Some db"
    using that rest_post_calls_known [OF p, of db_name db driver]
    by (simp add: handleRest_def)
  from p c v h show ?thesis by blast
qed


theorem handlePost_insert_statement_witness:
  "handlePost
      \<lparr>req_method = js ''POST'', req_pathname = js ''/rest/mcw_db/users'',
          req_searchParams = [],
       req_json = Inr (Obj [(js ''name'', Str (js ''John'')), (js ''age'', Num (Finite 30))]),
       req_authorization = None\<rparr> (js ''users'')
     = Inr \<lparr>status = 200, message = js ''INSERT INTO `users` (name, age) VALUES (?, ?)'',
            params = Some [Str (js ''John''), Num (Finite 30)]\<rparr>
   \<and> snd (handleRest example_engine accepting_driver
          \<lparr>req_method = js ''POST'', req_pathname = js ''/rest/mcw_db/users'',
           req_searchParams = [],
           req_json = Inr (Obj [(js ''name'', Str (js ''John'')), (js ''age'', Num (Finite 30))]),
           req_authorization = None\<rparr>)
     = [\<lparr>call_db = MCW_DB, call_sql = js ''INSERT INTO `users` (name, age) VALUES (?, ?)'',
         call_bound = [Str (js ''John''), Num (Finite 30)], call_kind = ExecRun\<rparr>]"
  using handlePost_insert_statement
    [of "\<lparr>req_method = js ''POST'', req_pathname = js ''/rest/mcw_db/users'',
          req_searchParams = [],
          req_json = Inr (Obj [(js ''name'', Str (js ''John'')), (js ''age'', Num (Finite 30))]),
          req_authorization = None\<rparr>"
        "[(js ''name'', Str (js ''John'')), (js ''age'', Num (Finite 30))]" "js ''users''"
        "js ''rest''" "js ''mcw_db''" "[]" MCW_DB example_engine accepting_driver]
  by (simp add: path_parts_def select_db_def ident_char_def)

lemma rest_update_invalid:
  assumes "handleUpdate c t i = Inr \<lparr>status = 400, message = m, params = None\<rparr>"
    and "i \<noteq> []"
  shows "rest_update driver c db_name t (Some i) b = (Response 400 (ErrorBody m), [])"
  using assms by (simp add: rest_update_def)

text \<open>
  Claim C7. When the body of a \<open>POST\<close>, \<open>PUT\<close> or \<open>PATCH\<close> parses to anything but a plain
  object (null, an array, a string, a number, a boolean), the handler returns status
  400 with the message "Invalid data format" and no statement; the dispatcher answers
  400 with that message and sends nothing to a database.
\<close>

theorem invalid_body_rejected:
  assumes "req_json c = Inr data" and "\<forall>kvs. data \<noteq> Obj kvs"
  shows "handlePost c tableName
           = Inr \<lparr>status = 400, message = js ''Invalid data format'', params = None\<rparr>
         \<and> handleUpdate c tableName rid
           = Inr \<lparr>status = 400, message = js ''Invalid data format'', params = None\<rparr>
         \<and> (req_method c = js ''POST''
              \<and> path_parts (req_pathname c) = r # db_name # tableName # rest
              \<longrightarrow> handleRest rt driver c
                    = (Response 400 (ErrorBody (js ''Invalid data format'')), []))
         \<and> ((req_method c = js ''PUT'' \<or> req_method c = js ''PATCH'')
              \<and> path_parts (req_pathname c) = r # db_name # tableName # rid # rest'
              \<longrightarrow> handleRest rt driver c
                    = (Response 400 (ErrorBody (js ''Invalid data format'')), []))"
proof -
  have i: "invalid_data data"
    using assms(2) by (rule not_object_invalid)
  have p: "handlePost c tableName
           = Inr \<lparr>status = 400, message = js ''Invalid data format'', params
               = None\<rparr>"
    using assms(1) i by (simp add: handlePost_def)
  have u: "handleUpdate c tableName rid
           = Inr \<lparr>status = 400, message = js ''Invalid data format'', params
               = None\<rparr>"
    using assms(1) i by (simp add: handleUpdate_def)
  have hp: "handleRest rt driver c = (Response 400 (ErrorBody (js ''Invalid data format'')), [])"
    if "req_method c = js ''POST''"
      and "path_parts (req_pathname c) = r # db_name # tableName # rest"
    using that p by (simp add: handleRest_def rest_post_def)
  have hu: "handleRest rt driver c = (Response 400 (ErrorBody (js ''Invalid data format'')), [])"
    if m: "req_method c = js ''PUT'' \<or> req_method c = js ''PATCH''"
      and pp: "path_parts (req_pathname c) = r # db_name # tableName # rid # rest'"
  proof -
    have "rid \<in> set (path_parts (req_pathname c))"
      by (simp add: pp)
    then have "rid \<noteq> []"
      by (rule path_parts_nonempty)
    from rest_update_invalid [OF u this] m pp show ?thesis
      by (auto simp: handleRest_def)
  qed
  from p u hp hu show ?thesis by blast
qed

theorem invalid_body_rejected_witness:
  "handleRest example_engine refusing_driver
      \<lparr>req_method = js ''POST'', req_pathname = js ''/rest/mcw_db/users'',
          req_searchParams = [],
       req_json = Inr (Arr [Num (Finite 1), Num (Finite 2), Num (Finite 3)]), req_authorization
           = None\<rparr>
     = (Response 400 (ErrorBody (js ''Invalid data format'')), [])
   \<and> handleRest example_engine refusing_driver
      \<lparr>req_method = js ''PATCH'', req_pathname = js ''/rest/mcw_db/users/7'',
       req_searchParams = [], req_json = Inr Null, req_authorization = None\<rparr>
     = (Response 400 (ErrorBody (js ''Invalid data format'')), [])"
  using invalid_body_rejected
    [of "\<lparr>req_method = js ''POST'', req_pathname = js ''/rest/mcw_db/users'',
          req_searchParams = [], req_json = Inr (Arr [Num (Finite 1), Num (Finite 2),
              Num (Finite 3)]),
          req_authorization = None\<rparr>"
        "Arr [Num (Finite 1), Num (Finite 2), Num (Finite 3)]" "js ''users''" "js ''7''"
            "js ''rest''" "js ''mcw_db''" "[]"
        example_engine refusing_driver "[]"]
    invalid_body_rejected
    [of "\<lparr>req_method = js ''PATCH'', req_pathname = js ''/rest/mcw_db/users/7'',
          req_searchParams = [], req_json = Inr Null, req_authorization = None\<rparr>"
        Null "js ''users''" "js ''7''" "js ''rest''" "js ''mcw_db''" "[]" example_engine
        refusing_driver "[]"]
  by (simp add: path_parts_def)

section \<open>Read: filters, sorting and pagination\<close>

lemma map_of_filter_key:
  "P k \<Longrightarrow> map_of (filter (\<lambda>(k', v). P k') xs) k = map_of xs k"
  by (induction xs) auto

lemma map_of_filter_removed:
  "\<not> P k \<Longrightarrow> map_of (filter (\<lambda>(k', v). P k') xs) k = None"
  by (induction xs) auto

lemma without_pagination_get:
  "name \<noteq> js ''limit'' \<Longrightarrow> name \<noteq> js ''offset'' \<Longrightarrow>
     searchParams_get (req_searchParams (without_pagination c)) name
       = searchParams_get (req_searchParams c) name"
  using map_of_filter_key [of "\<lambda>k. k \<noteq> js ''limit''
      \<and> k \<noteq> js ''offset''" name "req_searchParams c"]
  by (simp add: without_pagination_def searchParams_get_def)

lemma without_pagination_limit:
  "searchParams_get (req_searchParams (without_pagination c)) (js ''limit'') = None"
  using map_of_filter_removed [of "\<lambda>k. k \<noteq> js ''limit''
      \<and> k \<noteq> js ''offset''" "js ''limit''" "req_searchParams c"]
  by (simp add: without_pagination_def searchParams_get_def)

lemma without_pagination_filters:
  "search_filters (req_searchParams (without_pagination c)) acc
     = search_filters (req_searchParams c) acc"
proof -
  have "filter (\<lambda>(k, v). k \<notin> set reserved_keys)
          (filter (\<lambda>(k, v). k \<noteq> js ''limit'' \<and> k \<noteq> js ''offset'') sp)
        = filter (\<lambda>(k, v). k \<notin> set reserved_keys) sp" for sp ::
            "(jstring \<times> jstring) list"
    by (induction sp) (auto simp: reserved_keys_def)
  then show ?thesis
    by (cases acc) (simp add: search_filters_eq without_pagination_def)
qed

lemma without_pagination_sorting:
  "add_sorting rt q (req_searchParams (without_pagination c)) = add_sorting rt q
      (req_searchParams c)"
  by (simp add: add_sorting_def without_pagination_get split: option.split)

lemma without_pagination_pagination:
  "add_pagination rt qp (req_searchParams (without_pagination c)) = qp"
  unfolding add_pagination_def without_pagination_limit by simp

lemma handleGet_without_pagination:
  "handleGet rt (without_pagination c) t rid
     = \<lparr>status = 200,
        message = add_sorting rt (add_where (js ''SELECT * FROM '' @ sanitizeKeyword t)
                    (fst (search_filters (req_searchParams c) (id_filter rid))))
                    (req_searchParams c),
        params = Some (snd (search_filters (req_searchParams c) (id_filter rid)))\<rparr>"
  unfolding handleGet_def Let_def without_pagination_filters without_pagination_sorting
    without_pagination_pagination
  by (simp add: case_prod_unfold)

lemma handleGet_from_base:
  "handleGet rt c t rid
     = \<lparr>status = 200,
        message = fst (add_pagination rt
                    (message (handleGet rt (without_pagination c) t rid),
                     or_empty (params (handleGet rt (without_pagination c) t rid)))
                    (req_searchParams c)),
        params = Some (snd (add_pagination rt
                    (message (handleGet rt (without_pagination c) t rid),
                     or_empty (params (handleGet rt (without_pagination c) t rid)))
                    (req_searchParams c)))\<rparr>"
  unfolding handleGet_without_pagination
  unfolding handleGet_def Let_def
  by (simp add: case_prod_unfold)

lemma search_filters_params:
  "snd (search_filters sp (id_filter rid))
     = snd (id_filter rid)
       @ map (\<lambda>(k, v). Str v)
           (filter (\<lambda>(k, v). k \<notin> {js ''sort_by'', js ''order'', js ''limit'',
               js ''offset''}) sp)"
  by (cases "id_filter rid") (simp add: search_filters_eq reserved_keys_def)

lemma search_filters_conds:
  "fst (search_filters sp (id_filter rid))
     = fst (id_filter rid)
       @ map (\<lambda>(k, v). sanitizeIdentifier k @ js '' = ?'')
           (filter (\<lambda>(k, v). k \<notin> {js ''sort_by'', js ''order'', js ''limit'',
               js ''offset''}) sp)"
  by (cases "id_filter rid") (simp add: search_filters_eq reserved_keys_def)

text \<open>
  Claim C5, as the code has it. Let the base statement be the one compiled from the
  same request without its \<open>limit\<close> and \<open>offset\<close> entries; its values are the id (when
  there is one) and the values of the keys that are not reserved. When the first
  \<open>limit\<close> of the query string is not empty, the statement is the base statement
  followed by \<open>LIMIT ?\<close>, and by \<open>OFFSET ?\<close> when the first \<open>offset\<close> is not empty either,
  with what the engine's \<open>parseInt\<close> makes of these values bound last, in that order.
  When \<open>limit\<close> is absent or empty, the statement is the base statement whatever
  \<open>offset\<close> is.
\<close>

theorem handleGet_pagination:
  "(\<forall>limit offset.
      searchParams_get (req_searchParams c) (js ''limit'') = Some limit \<and> limit \<noteq> []
      \<and> searchParams_get (req_searchParams c) (js ''offset'') = Some offset
          \<and> offset \<noteq> []
      \<longrightarrow> message (handleGet rt c t rid)
            = message (handleGet rt (without_pagination c) t rid) @ js '' LIMIT ? OFFSET ?''
          \<and> params (handleGet rt c t rid)
            = Some (or_empty (params (handleGet rt (without_pagination c) t rid))
                    @ [Num (parseInt rt limit), Num (parseInt rt offset)]))
   \<and> (\<forall>limit.
      searchParams_get (req_searchParams c) (js ''limit'') = Some limit \<and> limit \<noteq> []
      \<and> searchParams_get (req_searchParams c) (js ''offset'') \<in> {None, Some []}
      \<longrightarrow> message (handleGet rt c t rid)
            = message (handleGet rt (without_pagination c) t rid) @ js '' LIMIT ?''
          \<and> params (handleGet rt c t rid)
            = Some (or_empty (params (handleGet rt (without_pagination c) t rid))
                    @ [Num (parseInt rt limit)]))
   \<and> (searchParams_get (req_searchParams c) (js ''limit'') \<in> {None, Some []}
      \<longrightarrow> handleGet rt c t rid = handleGet rt (without_pagination c) t rid)
   \<and> params (handleGet rt (without_pagination c) t rid)
       = Some (snd (id_filter rid)
               @ map (\<lambda>(k, v). Str v)
                   (filter (\<lambda>(k, v). k \<notin> {js ''sort_by'', js ''order'',
                       js ''limit'', js ''offset''})
                      (req_searchParams c)))
   \<and> placeholder_count (message (handleGet rt (without_pagination c) t rid))
       = length (or_empty (params (handleGet rt (without_pagination c) t rid)))"
proof (intro conjI allI impI)
  fix limit offset
  assume "searchParams_get (req_searchParams c) (js ''limit'') = Some limit
      \<and> limit \<noteq> []
      \<and> searchParams_get (req_searchParams c) (js ''offset'') = Some offset
          \<and> offset \<noteq> []"
  then show "message (handleGet rt c t rid)
            = message (handleGet rt (without_pagination c) t rid) @ js '' LIMIT ? OFFSET ?''"
    and "params (handleGet rt c t rid)
            = Some (or_empty (params (handleGet rt (without_pagination c) t rid))
                    @ [Num (parseInt rt limit), Num (parseInt rt offset)])"
    by (simp_all add: handleGet_from_base [of rt c] add_pagination_def Let_def)
next
  fix limit
  assume "searchParams_get (req_searchParams c) (js ''limit'') = Some limit
      \<and> limit \<noteq> []
      \<and> searchParams_get (req_searchParams c) (js ''offset'') \<in> {None, Some []}"
  then show "message (handleGet rt c t rid)
            = message (handleGet rt (without_pagination c) t rid) @ js '' LIMIT ?''"
    and "params (handleGet rt c t rid)
            = Some (or_empty (params (handleGet rt (without_pagination c) t rid))
                    @ [Num (parseInt rt limit)])"
    by (auto simp: handleGet_from_base [of rt c] add_pagination_def Let_def)
next
  assume "searchParams_get (req_searchParams c) (js ''limit'') \<in> {None, Some []}"
  then show "handleGet rt c t rid = handleGet rt (without_pagination c) t rid"
    by (subst handleGet_from_base)
      (auto simp: add_pagination_def handleGet_without_pagination)
next
  show "params (handleGet rt (without_pagination c) t rid)
       = Some (snd (id_filter rid)
               @ map (\<lambda>(k, v). Str v)
                   (filter (\<lambda>(k, v). k \<notin> {js ''sort_by'', js ''order'',
                       js ''limit'', js ''offset''})
                      (req_searchParams c)))"
    by (simp add: handleGet_without_pagination search_filters_params)
next
  show "placeholder_count (message (handleGet rt (without_pagination c) t rid))
       = length (or_empty (params (handleGet rt (without_pagination c) t rid)))"
    by (rule handleGet_placeholders)
qed

theorem handleGet_pagination_witness:
  "message (handleGet example_engine
      \<lparr>req_method = js ''GET'', req_pathname = js ''/rest/mcw_db/users'',
       req_searchParams = [(js ''limit'', js ''10''), (js ''offset'', js ''20'')],
       req_json = Inl (js ''Unexpected end of JSON input''), req_authorization = None\<rparr>
      (js ''users'') None)
     = js ''SELECT * FROM `users` LIMIT ? OFFSET ?''
   \<and> params (handleGet example_engine
      \<lparr>req_method = js ''GET'', req_pathname = js ''/rest/mcw_db/users'',
       req_searchParams = [(js ''limit'', js ''10''), (js ''offset'', js ''20'')],
       req_json = Inl (js ''Unexpected end of JSON input''), req_authorization = None\<rparr>
      (js ''users'') None)
     = Some [Num (Finite 10), Num (Finite 20)]
   \<and> handleGet example_engine
      \<lparr>req_method = js ''GET'', req_pathname = js ''/rest/mcw_db/users'',
       req_searchParams = [(js ''offset'', js ''20'')],
       req_json = Inl (js ''Unexpected end of JSON input''), req_authorization = None\<rparr>
      (js ''users'') None
     = \<lparr>status = 200, message = js ''SELECT * FROM `users`'', params = Some []\<rparr>"
proof -
  let ?c1 = "\<lparr>req_method = js ''GET'', req_pathname = js ''/rest/mcw_db/users'',
       req_searchParams = [(js ''limit'', js ''10''), (js ''offset'', js ''20'')],
       req_json = Inl (js ''Unexpected end of JSON input''), req_authorization = None\<rparr>"
  let ?c2 = "\<lparr>req_method = js ''GET'', req_pathname = js ''/rest/mcw_db/users'',
       req_searchParams = [(js ''offset'', js ''20'')],
       req_json = Inl (js ''Unexpected end of JSON input''), req_authorization = None\<rparr>"
  have w1: "without_pagination ?c1 = ?c1\<lparr>req_searchParams := []\<rparr>"
    by (simp add: without_pagination_def)
  have w2: "without_pagination ?c2 = ?c2\<lparr>req_searchParams := []\<rparr>"
    by (simp add: without_pagination_def)
  have b: "handleGet example_engine (c\<lparr>req_searchParams := []\<rparr>) (js ''users'') None
             = \<lparr>status = 200, message = js ''SELECT * FROM `users`'', params
                 = Some []\<rparr>" for c
    by (simp add: handleGet_def searchParams_get_def add_where_def add_sorting_def
        add_pagination_def sanitizeKeyword_def ident_char_def)
  have p: "parseInt example_engine (js ''10'') = Finite 10"
    "parseInt example_engine (js ''20'') = Finite 20"
    by (simp_all add: example_engine_def)
  have a1: "searchParams_get (req_searchParams ?c1) (js ''limit'') = Some (js ''10'')
      \<and> js ''10'' \<noteq> []
      \<and> searchParams_get (req_searchParams ?c1) (js ''offset'') = Some (js ''20'')
          \<and> js ''20'' \<noteq> []"
    by (simp add: searchParams_get_def)
  have a2: "searchParams_get (req_searchParams ?c2) (js ''limit'') \<in> {None, Some []}"
    by (simp add: searchParams_get_def)
  from handleGet_pagination [of ?c1 example_engine "js ''users''" None] a1
  have "message (handleGet example_engine ?c1 (js ''users'') None)
            = message (handleGet example_engine (without_pagination ?c1) (js ''users'') None)
                @ js '' LIMIT ? OFFSET ?''
          \<and> params (handleGet example_engine ?c1 (js ''users'') None)
            = Some (or_empty (params (handleGet example_engine (without_pagination ?c1)
                (js ''users'') None))
                    @ [Num (parseInt example_engine (js ''10'')),
                       Num (parseInt example_engine (js ''20''))])"
    by blast
  then have r1: "message (handleGet example_engine ?c1 (js ''users'') None)
      = js ''SELECT * FROM `users` LIMIT ? OFFSET ?''
      \<and> params (handleGet example_engine ?c1 (js ''users'') None)
          = Some [Num (Finite 10), Num (Finite 20)]"
    unfolding w1 b p by simp
  from handleGet_pagination [of ?c2 example_engine "js ''users''" None] a2
  have "handleGet example_engine ?c2 (js ''users'') None = handleGet example_engine
      (without_pagination ?c2) (js ''users'') None"
    by blast
  then have r2: "handleGet example_engine ?c2 (js ''users'') None
     = \<lparr>status = 200, message = js ''SELECT * FROM `users`'', params = Some []\<rparr>"
    unfolding w2 b .
  from r1 r2 show ?thesis by blast
qed

theorem limit_without_value_counterexample:
  "searchParams_get [(js ''limit'', [])] (js ''limit'') = Some []
   \<and> handleGet example_engine
      \<lparr>req_method = js ''GET'', req_pathname = js ''/rest/mcw_db/users'',
       req_searchParams = [(js ''limit'', [])],
       req_json = Inl (js ''Unexpected end of JSON input''), req_authorization = None\<rparr>
      (js ''users'') None
     = \<lparr>status = 200, message = js ''SELECT * FROM `users`'', params = Some []\<rparr>"
  by (simp add: handleGet_def searchParams_get_def reserved_keys_def
      add_where_def add_sorting_def add_pagination_def sanitizeKeyword_def ident_char_def)

subsection \<open>The direction of the sort\<close>

lemma add_pagination_suffix:
  "\<exists>p \<in> {[], js '' LIMIT ?'', js '' LIMIT ? OFFSET ?''}.
     fst (add_pagination rt (q, ps) sp) = q @ p"
  by (simp add: add_pagination_def Let_def split: option.split)

lemma order_direction_iff:
  assumes "toUpperCase rt (js ''desc'') = js ''DESC''"
  shows "order_direction rt ord
     = (if \<exists>v. ord = Some v \<and> equals_ignoring_case rt v
         (js ''desc'') then js ''DESC''
        else js ''ASC'')"
  unfolding order_direction_def equals_ignoring_case_def assms
  by (cases ord) simp_all

text \<open>
  Claim C9. \<open>GET /rest/mcw_db/users?age=25&sort_by=name&order=desc\<close> compiles to
  \<open>SELECT * FROM `users` WHERE age = ? ORDER BY name DESC\<close> with the values \<open>["25"]\<close>.
  In general the statement before pagination is the \<open>SELECT\<close>, then a \<open>WHERE\<close> clause
  made of the id filter and of one equality per entry whose key is none of
  \<open>sort_by\<close>, \<open>order\<close>, \<open>limit\<close>, \<open>offset\<close> (no clause when there is none), then, for a
  non-empty \<open>sort_by\<close>, \<open>ORDER BY\<close> with the sanitized column and \<open>DESC\<close> exactly when the
  first \<open>order\<close> equals \<open>desc\<close> up to case, else \<open>ASC\<close>. The values are those of the same
  filters, and only pagination is appended after it. This holds for every engine
  whose upper case of \<open>desc\<close> is \<open>DESC\<close>, whatever it does on other strings.
\<close>

theorem handleGet_filters_and_order:
  assumes "toUpperCase rt (js ''desc'') = js ''DESC''"
  shows "handleGet rt
      \<lparr>req_method = js ''GET'', req_pathname = js ''/rest/mcw_db/users'',
       req_searchParams =
         [(js ''age'', js ''25''), (js ''sort_by'', js ''name''), (js ''order'', js ''desc'')],
       req_json = Inl (js ''Unexpected end of JSON input''), req_authorization = None\<rparr>
      (js ''users'') None
     = \<lparr>status = 200,
        message = js ''SELECT * FROM `users` WHERE age = ? ORDER BY name DESC'',
        params = Some [Str (js ''25'')]\<rparr>
   \<and> message (handleGet rt (without_pagination c) t rid)
     = js ''SELECT * FROM `'' @ sanitizeIdentifier t @ js ''`''
       @ (if fst (id_filter rid)
               @ map (\<lambda>(k, v). sanitizeIdentifier k @ js '' = ?'')
                   (filter
                      (\<lambda>(k, v). k \<notin> {js ''sort_by'', js ''order'', js ''limit'',
                          js ''offset''})
                      (req_searchParams c)) = []
          then []
          else js '' WHERE ''
               @ join (js '' AND '')
                   (fst (id_filter rid)
                    @ map (\<lambda>(k, v). sanitizeIdentifier k @ js '' = ?'')
                        (filter
                           (\<lambda>(k, v).
                               k \<notin> {js ''sort_by'', js ''order'', js ''limit'',
                                   js ''offset''})
                           (req_searchParams c))))
       @ (case searchParams_get (req_searchParams c) (js ''sort_by'') of
            None \<Rightarrow> []
          | Some sortBy \<Rightarrow>
              if sortBy = [] then []
              else js '' ORDER BY '' @ sanitizeIdentifier sortBy
                   @ (if \<exists>v. searchParams_get (req_searchParams c) (js ''order'') = Some v
                             \<and> equals_ignoring_case rt v (js ''desc'')
                      then js '' DESC'' else js '' ASC''))
   \<and> params (handleGet rt (without_pagination c) t rid)
     = Some (snd (id_filter rid)
             @ map (\<lambda>(k, v). Str v)
                 (filter
                    (\<lambda>(k, v). k \<notin> {js ''sort_by'', js ''order'', js ''limit'',
                        js ''offset''})
                    (req_searchParams c)))
   \<and> (\<exists>p \<in> {[], js '' LIMIT ?'', js '' LIMIT ? OFFSET ?''}.
         message (handleGet rt c t rid)
           = message (handleGet rt (without_pagination c) t rid) @ p)"
proof (intro conjI)
  have u: "toUpperCase rt [100, 101, 115, 99] = [68, 69, 83, 67]"
    using assms by simp
  show "handleGet rt
      \<lparr>req_method = js ''GET'', req_pathname = js ''/rest/mcw_db/users'',
       req_searchParams =
         [(js ''age'', js ''25''), (js ''sort_by'', js ''name''), (js ''order'', js ''desc'')],
       req_json = Inl (js ''Unexpected end of JSON input''), req_authorization = None\<rparr>
      (js ''users'') None
     = \<lparr>status = 200,
        message = js ''SELECT * FROM `users` WHERE age = ? ORDER BY name DESC'',
        params = Some [Str (js ''25'')]\<rparr>"
    by (simp add: handleGet_def sanitizeKeyword_def ident_char_def add_where_def
        add_sorting_def add_pagination_def searchParams_get_def reserved_keys_def
        order_direction_def u)
  show "message (handleGet rt (without_pagination c) t rid)
     = js ''SELECT * FROM `'' @ sanitizeIdentifier t @ js ''`''
       @ (if fst (id_filter rid)
               @ map (\<lambda>(k, v). sanitizeIdentifier k @ js '' = ?'')
                   (filter
                      (\<lambda>(k, v). k \<notin> {js ''sort_by'', js ''order'', js ''limit'',
                          js ''offset''})
                      (req_searchParams c)) = []
          then []
          else js '' WHERE ''
               @ join (js '' AND '')
                   (fst (id_filter rid)
                    @ map (\<lambda>(k, v). sanitizeIdentifier k @ js '' = ?'')
                        (filter
                           (\<lambda>(k, v).
                               k \<notin> {js ''sort_by'', js ''order'', js ''limit'',
                                   js ''offset''})
                           (req_searchParams c))))
       @ (case searchParams_get (req_searchParams c) (js ''sort_by'') of
            None \<Rightarrow> []
          | Some sortBy \<Rightarrow>
              if sortBy = [] then []
              else js '' ORDER BY '' @ sanitizeIdentifier sortBy
                   @ (if \<exists>v. searchParams_get (req_searchParams c) (js ''order'') = Some v
                             \<and> equals_ignoring_case rt v (js ''desc'')
                      then js '' DESC'' else js '' ASC''))"
    unfolding handleGet_without_pagination search_filters_conds
    by (auto simp: add_sorting_def add_where_def sanitizeKeyword_def
        order_direction_iff [OF assms] split: option.split)
  show "params (handleGet rt (without_pagination c) t rid)
     = Some (snd (id_filter rid)
             @ map (\<lambda>(k, v). Str v)
                 (filter
                    (\<lambda>(k, v). k \<notin> {js ''sort_by'', js ''order'', js ''limit'',
                        js ''offset''})
                    (req_searchParams c)))"
    by (simp add: handleGet_without_pagination search_filters_params)
  show "\<exists>p \<in> {[], js '' LIMIT ?'', js '' LIMIT ? OFFSET ?''}.
         message (handleGet rt c t rid)
           = message (handleGet rt (without_pagination c) t rid) @ p"
    by (subst handleGet_from_base) (simp only: handler_result.simps add_pagination_suffix)
qed

theorem handleGet_filters_and_order_witness:
  "message (handleGet example_engine (without_pagination
      \<lparr>req_method = js ''GET'', req_pathname = js ''/rest/catalog_db/items/7'',
       req_searchParams =
         [(js ''order'', js ''de'' @ [0x17F] @ js ''c''), (js ''limit'', js ''10''),
          (js ''sort_by'', js ''price'')],
       req_json = Inl (js ''Unexpected end of JSON input''), req_authorization = None\<rparr>)
      (js ''items'') (Some (js ''7'')))
     = js ''SELECT * FROM `items` WHERE id = ? ORDER BY price DESC''
   \<and> params (handleGet example_engine (without_pagination
      \<lparr>req_method = js ''GET'', req_pathname = js ''/rest/catalog_db/items/7'',
       req_searchParams =
         [(js ''order'', js ''de'' @ [0x17F] @ js ''c''), (js ''limit'', js ''10''),
          (js ''sort_by'', js ''price'')],
       req_json = Inl (js ''Unexpected end of JSON input''), req_authorization = None\<rparr>)
      (js ''items'') (Some (js ''7'')))
     = Some [Str (js ''7'')]"
proof -
  let ?c = "\<lparr>req_method = js ''GET'', req_pathname = js ''/rest/catalog_db/items/7'',
       req_searchParams =
         [(js ''order'', js ''de'' @ [0x17F] @ js ''c''), (js ''limit'', js ''10''),
          (js ''sort_by'', js ''price'')],
       req_json = Inl (js ''Unexpected end of JSON input''), req_authorization = None\<rparr>"
  have a: "toUpperCase example_engine (js ''desc'') = js ''DESC''"
    by (simp add: example_engine_def)
  have f: "filter (\<lambda>(k, v). k \<notin> {js ''sort_by'', js ''order'', js ''limit'',
      js ''offset''})
             (req_searchParams ?c) = []"
    by simp
  have s: "searchParams_get (req_searchParams ?c) (js ''sort_by'') = Some (js ''price'')"
    and d: "searchParams_get (req_searchParams ?c) (js ''order'')
              = Some (js ''de'' @ [0x17F] @ js ''c'')"
    by (simp_all add: searchParams_get_def)
  have e: "equals_ignoring_case example_engine (js ''de'' @ [0x17F] @ js ''c'') (js ''desc'')"
    by (simp add: equals_ignoring_case_def example_engine_def)
  note t = handleGet_filters_and_order
    [OF a, where c = ?c and t = "js ''items''" and rid = "Some (js ''7'')"]
  have m: "message (handleGet example_engine (without_pagination ?c) (js ''items'')
             (Some (js ''7'')))
     = js ''SELECT * FROM `items` WHERE id = ? ORDER BY price DESC''"
    using t [THEN conjunct2, THEN conjunct1] e unfolding f s d
    by (simp add: ident_char_def)
  have p: "params (handleGet example_engine (without_pagination ?c) (js ''items'')
             (Some (js ''7''))) = Some [Str (js ''7'')]"
    using t [THEN conjunct2, THEN conjunct2, THEN conjunct1] unfolding f
    by simp
  from m p show ?thesis by (rule conjI)
qed

section \<open>Unknown database names\<close>

lemma status_handleGet [simp]: "status (handleGet rt c t rid) = 200"
  by (simp add: handleGet_def Let_def case_prod_unfold)

lemma select_db_None:
  "select_db db_name = None \<longleftrightarrow> db_name \<notin> {js ''mcw_db'',
      js ''utility_db'', js ''catalog_db''}"
  by (simp add: select_db_def)

lemma rest_get_unknown:
  "select_db db_name = None \<Longrightarrow>
     rest_get rt driver c db_name t rid = (Response 400 (ErrorBody
         (js ''Unknown database name'')), [])"
  by (simp add: rest_get_def Let_def)

lemma rest_post_unknown:
  "select_db db_name = None \<Longrightarrow> snd (rest_post driver c db_name t) = []"
  by (simp add: rest_post_def split: sum.split)

lemma rest_delete_unknown:
  "select_db db_name = None \<Longrightarrow> snd (rest_delete driver c db_name t rid) = []"
  by (simp add: rest_delete_def Let_def)

lemma handleRest_unknown_calls:
  assumes "path_parts (req_pathname c) = r # db_name # rest"
    and "select_db db_name = None"
  shows "snd (handleRest rt driver c) = []"
  using assms
  by (simp add: handleRest_def Let_def rest_get_unknown rest_post_unknown rest_delete_unknown
      rest_update_calls)

lemma handleQuery_unknown_calls:
  assumes "path_parts (req_pathname c) = r # db_name # rest"
    and "select_db db_name = None"
  shows "snd (handleQuery driver c) = []"
  using assms by (simp add: handleQuery_def Let_def split: sum.split)

lemma rest_post_unknown_object:
  assumes "select_db db_name = None" and "req_json c = Inr (Obj kvs)"
  shows "rest_post driver c db_name t = (Response 400 (ErrorBody
      (js ''Unknown database name'')), [])"
  using assms by (simp add: rest_post_def handlePost_def Let_def)

lemma rest_update_unknown_object:
  assumes "select_db db_name = None" and "req_json c = Inr (Obj kvs)" and "i \<noteq> []"
  shows "rest_update driver c db_name t (Some i) b
           = (Response 400 (ErrorBody (js ''Unknown database name'')), [])"
  using assms by (simp add: rest_update_def handleUpdate_def Let_def)

lemma rest_delete_unknown_id:
  assumes "select_db db_name = None" and "i \<noteq> []"
  shows "rest_delete driver c db_name t (Some i)
           = (Response 400 (ErrorBody (js ''Unknown database name'')), [])"
  using assms by (simp add: rest_delete_def handleDelete_def Let_def)

text \<open>
  Claim C8, as the code has it. When the database segment of the path is none of
  \<open>mcw_db\<close>, \<open>utility_db\<close>, \<open>catalog_db\<close>, no statement is sent to any database, on the
  REST route and on the raw query route. The answer is 400 "Unknown database name"
  when the request passes the checks that come first: on the REST route a table
  segment and one of the methods, with a JSON object body for \<open>POST\<close>, \<open>PUT\<close> and
  \<open>PATCH\<close> and an id for \<open>PUT\<close>, \<open>PATCH\<close> and \<open>DELETE\<close>; on the raw query route a body
  other than \<open>null\<close> with a truthy \<open>query\<close>.
\<close>

theorem unknown_database_rejected:
  assumes "path_parts (req_pathname c) = r # db_name # rest"
    and "db_name \<notin> {js ''mcw_db'', js ''utility_db'', js ''catalog_db''}"
  shows "snd (handleRest rt driver c) = []
         \<and> snd (handleQuery qdriver c) = []
         \<and> (rest \<noteq> []
              \<and> (req_method c = js ''GET''
                  \<or> (req_method c = js ''POST'' \<and> (\<exists>kvs. req_json c
                      = Inr (Obj kvs)))
                  \<or> ((req_method c = js ''PUT'' \<or> req_method c = js ''PATCH'')
                      \<and> 2 \<le> length rest \<and> (\<exists>kvs. req_json c
                          = Inr (Obj kvs)))
                  \<or> (req_method c = js ''DELETE'' \<and> 2 \<le> length rest))
              \<longrightarrow> handleRest rt driver c
                    = (Response 400 (ErrorBody (js ''Unknown database name'')), []))
         \<and> ((\<exists>body. req_json c = Inr body \<and> body \<noteq> Null
             \<and> body \<noteq> Undefined
                     \<and> truthy (js_get body (js ''query'')))
              \<longrightarrow> handleQuery qdriver c
                    = (Response 400 (ErrorBody (js ''Unknown database name'')), []))"
proof -
  have n: "select_db db_name = None"
    using assms(2) by (simp add: select_db_None)
  have a: "snd (handleRest rt driver c) = []"
    using assms(1) n by (rule handleRest_unknown_calls)
  have b: "snd (handleQuery qdriver c) = []"
    using assms(1) n by (rule handleQuery_unknown_calls)
  have g: "handleRest rt driver c = (Response 400 (ErrorBody (js ''Unknown database name'')), [])"
    if ne: "rest \<noteq> []"
      and m: "req_method c = js ''GET''
                  \<or> (req_method c = js ''POST'' \<and> (\<exists>kvs. req_json c
                      = Inr (Obj kvs)))
                  \<or> ((req_method c = js ''PUT'' \<or> req_method c = js ''PATCH'')
                      \<and> 2 \<le> length rest \<and> (\<exists>kvs. req_json c
                          = Inr (Obj kvs)))
                  \<or> (req_method c = js ''DELETE'' \<and> 2 \<le> length rest)"
  proof -
    from ne obtain t rest' where r: "rest = t # rest'"
      by (cases rest) auto
    have pp: "path_parts (req_pathname c) = r # db_name # t # rest'"
      using assms(1) r by simp
    show ?thesis
    proof (cases rest')
      case Nil
      with m r pp n show ?thesis
        by (auto simp: handleRest_def rest_get_unknown rest_post_unknown_object)
    next
      case (Cons i rest'')
      have "i \<in> set (path_parts (req_pathname c))"
        using pp Cons by simp
      then have "i \<noteq> []"
        by (rule path_parts_nonempty)
      with m pp Cons n show ?thesis
        by (auto simp: handleRest_def rest_get_unknown rest_post_unknown_object
            rest_update_unknown_object rest_delete_unknown_id)
    qed
  qed
  have q: "handleQuery qdriver c = (Response 400 (ErrorBody (js ''Unknown database name'')), [])"
    if "\<exists>body. req_json c = Inr body \<and> body \<noteq> Null
        \<and> body \<noteq> Undefined
                     \<and> truthy (js_get body (js ''query''))"
    using that assms(1) n by (auto simp: handleQuery_def Let_def simp del: js_get.simps)
  from a b g q show ?thesis by blast
qed

theorem unknown_database_rejected_witness:
  "handleRest example_engine refusing_driver
      \<lparr>req_method = js ''GET'', req_pathname = js ''/rest/nope/users'', req_searchParams
          = [],
       req_json = Inl (js ''Unexpected end of JSON input''), req_authorization = None\<rparr>
     = (Response 400 (ErrorBody (js ''Unknown database name'')), [])
   \<and> handleQuery refusing_driver
      \<lparr>req_method = js ''POST'', req_pathname = js ''/query/nope'', req_searchParams = [],
       req_json = Inr (Obj [(js ''query'', Str (js ''SELECT 1''))]), req_authorization
           = None\<rparr>
     = (Response 400 (ErrorBody (js ''Unknown database name'')), [])"
proof -
  let ?g = "\<lparr>req_method = js ''GET'', req_pathname = js ''/rest/nope/users'',
      req_searchParams = [],
       req_json = Inl (js ''Unexpected end of JSON input''), req_authorization = None\<rparr>"
  let ?q = "\<lparr>req_method = js ''POST'', req_pathname = js ''/query/nope'',
      req_searchParams = [],
       req_json = Inr (Obj [(js ''query'', Str (js ''SELECT 1''))]), req_authorization
           = None\<rparr>"
  have pg: "path_parts (req_pathname ?g) = js ''rest'' # js ''nope'' # [js ''users'']"
    and pq: "path_parts (req_pathname ?q) = js ''query'' # js ''nope'' # []"
    by (simp_all add: path_parts_def)
  have n: "js ''nope'' \<notin> {js ''mcw_db'', js ''utility_db'', js ''catalog_db''}"
    by simp
  have "handleRest example_engine refusing_driver ?g
          = (Response 400 (ErrorBody (js ''Unknown database name'')), [])"
    using unknown_database_rejected [OF pg n, of example_engine refusing_driver refusing_driver]
    by simp
  moreover have "handleQuery refusing_driver ?q
          = (Response 400 (ErrorBody (js ''Unknown database name'')), [])"
    using unknown_database_rejected [OF pq n, of example_engine refusing_driver refusing_driver]
    by simp
  ultimately show ?thesis by (rule conjI)
qed

theorem unknown_database_counterexample:
  "path_parts (js ''/rest/nope/users'') = [js ''rest'', js ''nope'', js ''users'']
   \<and> select_db (js ''nope'') = None
   \<and> handleRest example_engine refusing_driver
      \<lparr>req_method = js ''POST'', req_pathname = js ''/rest/nope/users'',
          req_searchParams = [],
       req_json = Inr (Arr [Num (Finite 1), Num (Finite 2), Num (Finite 3)]), req_authorization
           = None\<rparr>
     = (Response 400 (ErrorBody (js ''Invalid data format'')), [])"
  by (simp add: path_parts_def select_db_def handleRest_def rest_post_def handlePost_def
      invalid_data_def)

section \<open>Authentication\<close>

lemma bearer_token_prefixed: "bearer_token (js ''Bearer '' @ token) = token"
  by (simp add: bearer_token_def startsWith_def)

lemma bearer_token_bare: "\<not> startsWith h (js ''Bearer '') \<Longrightarrow> bearer_token h
    = h"
  by (simp add: bearer_token_def)

lemma authMiddleware_cases:
  "authMiddleware secret c
     = (if req_authorization c = None \<or> req_authorization c = Some []
           \<or> (\<exists>h. req_authorization c = Some h \<and> bearer_token h \<noteq> secret)
        then Respond (Response 401 (ErrorBody (js ''Unauthorized'')))
        else Next)"
  by (cases "req_authorization c") (simp_all add: authMiddleware_def)

text \<open>
  Claim C10, as the code has it. The middleware answers 401 "Unauthorized" exactly
  when the \<open>Authorization\<close> header is absent or empty, or the derived token differs from
  the secret; otherwise it hands the request to the route's handler. The derived
  token is the header without a leading \<open>Bearer \<close>, or the whole header when it does
  not start so; hence a non-empty secret sent bare, or sent after \<open>Bearer \<close>, is
  accepted.
\<close>

theorem authMiddleware_decision:
  "((authMiddleware secret c :: 'r outcome middleware)
        = Respond (Response 401 (ErrorBody (js ''Unauthorized'')))
      \<longleftrightarrow> req_authorization c = None \<or> req_authorization c = Some []
          \<or> (\<exists>h. req_authorization c = Some h \<and> bearer_token h \<noteq> secret))
   \<and> ((authMiddleware secret c :: 'r outcome middleware) = Next
      \<longleftrightarrow> (\<exists>h. req_authorization c = Some h \<and> h \<noteq> []
          \<and> bearer_token h = secret))
   \<and> bearer_token (js ''Bearer '' @ token) = token
   \<and> (\<not> startsWith h (js ''Bearer '') \<longrightarrow> bearer_token h = h)
   \<and> (secret \<noteq> [] \<and> \<not> startsWith secret (js ''Bearer '')
       \<and> req_authorization c = Some secret
        \<longrightarrow> (authMiddleware secret c :: 'r outcome middleware) = Next)
   \<and> (req_authorization c = Some (js ''Bearer '' @ secret)
        \<longrightarrow> (authMiddleware secret c :: 'r outcome middleware) = Next)
   \<and> rest_route secret rt (driver :: (jstring, 'r) driver) c
       = (if req_authorization c = None \<or> req_authorization c = Some []
             \<or> (\<exists>h. req_authorization c = Some h \<and> bearer_token h \<noteq>
                 secret)
          then (Response 401 (ErrorBody (js ''Unauthorized'')), [])
          else handleRest rt driver c)
   \<and> query_route secret (qdriver :: (jsval, 'r) driver) c
       = (if req_authorization c = None \<or> req_authorization c = Some []
             \<or> (\<exists>h. req_authorization c = Some h \<and> bearer_token h \<noteq>
                 secret)
          then (Response 401 (ErrorBody (js ''Unauthorized'')), [])
          else handleQuery qdriver c)"
proof (intro conjI)
  show "((authMiddleware secret c :: 'r outcome middleware)
        = Respond (Response 401 (ErrorBody (js ''Unauthorized'')))
      \<longleftrightarrow> req_authorization c = None \<or> req_authorization c = Some []
          \<or> (\<exists>h. req_authorization c = Some h \<and> bearer_token h \<noteq> secret))"
    by (simp add: authMiddleware_cases)
  show "((authMiddleware secret c :: 'r outcome middleware) = Next
      \<longleftrightarrow> (\<exists>h. req_authorization c = Some h \<and> h \<noteq> []
          \<and> bearer_token h = secret))"
    by (cases "req_authorization c") (auto simp: authMiddleware_def)
  show "bearer_token (js ''Bearer '' @ token) = token"
    by (rule bearer_token_prefixed)
  show "\<not> startsWith h (js ''Bearer '') \<longrightarrow> bearer_token h = h"
    by (simp add: bearer_token_bare)
  show "secret \<noteq> [] \<and> \<not> startsWith secret (js ''Bearer '')
      \<and> req_authorization c = Some secret
        \<longrightarrow> (authMiddleware secret c :: 'r outcome middleware) = Next"
    by (simp add: authMiddleware_def bearer_token_bare)
  show "req_authorization c = Some (js ''Bearer '' @ secret)
        \<longrightarrow> (authMiddleware secret c :: 'r outcome middleware) = Next"
    using bearer_token_prefixed [of secret] by (auto simp: authMiddleware_def)
  show "rest_route secret rt driver c
       = (if req_authorization c = None \<or> req_authorization c = Some []
             \<or> (\<exists>h. req_authorization c = Some h \<and> bearer_token h \<noteq>
                 secret)
          then (Response 401 (ErrorBody (js ''Unauthorized'')), [])
          else handleRest rt driver c)"
    unfolding rest_route_def authMiddleware_cases by auto
  show "query_route secret qdriver c
       = (if req_authorization c = None \<or> req_authorization c = Some []
             \<or> (\<exists>h. req_authorization c = Some h \<and> bearer_token h \<noteq>
                 secret)
          then (Response 401 (ErrorBody (js ''Unauthorized'')), [])
          else handleQuery qdriver c)"
    unfolding query_route_def authMiddleware_cases by auto
qed

theorem authMiddleware_decision_witness:
  "(authMiddleware (js ''s3cret'')
      \<lparr>req_method = js ''GET'', req_pathname = js ''/rest/mcw_db/users'',
          req_searchParams = [],
       req_json = Inl (js ''Unexpected end of JSON input''),
       req_authorization = Some (js ''s3cret'')\<rparr> :: unit outcome middleware) = Next
   \<and> (authMiddleware (js ''s3cret'')
      \<lparr>req_method = js ''GET'', req_pathname = js ''/rest/mcw_db/users'',
          req_searchParams = [],
       req_json = Inl (js ''Unexpected end of JSON input''),
       req_authorization = Some (js ''Bearer s3cret'')\<rparr> :: unit outcome middleware) = Next
   \<and> (authMiddleware (js ''s3cret'')
      \<lparr>req_method = js ''GET'', req_pathname = js ''/rest/mcw_db/users'',
          req_searchParams = [],
       req_json = Inl (js ''Unexpected end of JSON input''),
       req_authorization = Some (js ''Bearer guess'')\<rparr> :: unit outcome middleware)
     = Respond (Response 401 (ErrorBody (js ''Unauthorized'')))"
proof -
  let ?c = "\<lambda>h. \<lparr>req_method = js ''GET'', req_pathname = js ''/rest/mcw_db/users'',
       req_searchParams = [], req_json = Inl (js ''Unexpected end of JSON input''),
       req_authorization = Some h\<rparr>"
  have s: "\<not> startsWith (js ''s3cret'') (js ''Bearer '')"
    by (simp add: startsWith_def)
  have g: "bearer_token (js ''Bearer guess'') \<noteq> js ''s3cret''"
    by (simp add: bearer_token_def startsWith_def)
  note t = authMiddleware_decision [where 'r = unit and secret = "js ''s3cret''"]
  have a: "(authMiddleware (js ''s3cret'') (?c (js ''s3cret'')) :: unit outcome middleware)
      = Next"
    using t [of "?c (js ''s3cret'')", THEN conjunct2, THEN conjunct2, THEN conjunct2,
        THEN conjunct2, THEN conjunct1] s
    by simp
  have b: "(authMiddleware (js ''s3cret'') (?c (js ''Bearer s3cret'')) :: unit outcome
      middleware) = Next"
    using t [of "?c (js ''Bearer s3cret'')", THEN conjunct2, THEN conjunct2, THEN conjunct2,
        THEN conjunct2, THEN conjunct2, THEN conjunct1]
    by simp
  have d: "(authMiddleware (js ''s3cret'') (?c (js ''Bearer guess'')) :: unit outcome middleware)
     = Respond (Response 401 (ErrorBody (js ''Unauthorized'')))"
    using t [of "?c (js ''Bearer guess'')", THEN conjunct1] g
    by simp
  from a b d show ?thesis by simp
qed

theorem empty_header_counterexample:
  "(authMiddleware []
      \<lparr>req_method = js ''GET'', req_pathname = js ''/rest/mcw_db/users'',
          req_searchParams = [],
       req_json = Inl (js ''Unexpected end of JSON input''),
       req_authorization = Some []\<rparr> :: unit outcome middleware)
     = Respond (Response 401 (ErrorBody (js ''Unauthorized'')))
   \<and> bearer_token [] = []"
  by (simp add: authMiddleware_def bearer_token_def startsWith_def)

end
